theory Spec2Isabelle
  imports Complex_Main "HOL-Library.Word"
begin

unbundle bit_operations_syntax

section \<open>Result codes and pointers\<close>

text \<open>
  The result codes of the library. The enumeration itself is declared in a header that
  is not part of the translated file; its members are the codes the translated file
  returns (section 7 of the specification lists the same taxonomy).
\<close>

datatype KMCUDAResult =
    kmcudaSuccess
  | kmcudaInvalidArguments
  | kmcudaNoSuchDevice
  | kmcudaMemoryAllocationFailure
  | kmcudaRuntimeError
  | kmcudaMemoryCopyError

text \<open>
  Pointers. A caller hands in addresses of its own (\<open>Caller a\<close>) or the null pointer;
  \<open>Cuda k\<close> is the block returned by the device allocation that was the \<open>k\<close>-th
  device operation of the invocation, so two allocations never return the same block.
\<close>

datatype ptr = nullptr | Caller nat | Cuda nat

section \<open>Single-precision numbers\<close>

text \<open>
  A value of the C type \<open>float\<close>: a finite number, an infinity or a NaN. Every finite
  \<open>float\<close> is a rational; the two zeros are not distinguished, which no operation used
  here can tell apart.
\<close>

datatype c_float = Finite rat | PlusInf | MinusInf | NaN

text \<open>The ordered comparison \<open>x < y\<close>: false as soon as one side is a NaN.\<close>

fun flt_less :: "c_float \<Rightarrow> c_float \<Rightarrow> bool" where
  "flt_less (Finite a) (Finite b) = (a < b)"
| "flt_less (Finite a) PlusInf = True"
| "flt_less MinusInf (Finite b) = True"
| "flt_less MinusInf PlusInf = True"
| "flt_less x y = False"

text \<open>
  Rounding of a rational to the nearest binary32 number, ties to the even significand.
  \<open>bit_length n\<close> is the number of binary digits of \<open>n\<close>, \<open>ilog2 x\<close> the exponent \<open>e\<close>
  with \<open>2^e \<le> x < 2^(e+1)\<close> for a positive \<open>x\<close>. A binary32 number has 24 significant
  bits, so numbers of exponent \<open>e\<close> are spaced by \<open>2^(e - 23)\<close>, and by \<open>2^(-149)\<close> in
  the subnormal range; a result of magnitude \<open>2^128\<close> or more is an infinity.
\<close>

fun bit_length :: "nat \<Rightarrow> nat" where
  "bit_length n = (if n = 0 then 0 else Suc (bit_length (n div 2)))"

declare bit_length.simps [simp del]

definition ilog2 :: "rat \<Rightarrow> int" where
  "ilog2 x = (if 1 \<le> x then int (bit_length (nat \<lfloor>x\<rfloor>)) - 1
              else - int (bit_length (nat (\<lceil>1 / x\<rceil> - 1))))"

definition pow2 :: "int \<Rightarrow> rat" where
  "pow2 e = (if 0 \<le> e then 2 ^ nat e else 1 / 2 ^ nat (- e))"

definition round_half_even :: "rat \<Rightarrow> int" where
  "round_half_even q =
     (let f = \<lfloor>q\<rfloor>; d = q - of_int f
      in if d < 1 / 2 then f else if 1 / 2 < d then f + 1 else if even f then f else f + 1)"

definition round_binary32 :: "rat \<Rightarrow> c_float" where
  "round_binary32 x =
     (if x = 0 then Finite 0
      else (let e = max (ilog2 \<bar>x\<bar> - 23) (- 149);
                y = of_int (round_half_even (x / pow2 e)) * pow2 e
            in if 2 ^ 128 \<le> y then PlusInf else if y \<le> - (2 ^ 128) then MinusInf
               else Finite y))"

text \<open>The conversion of a \<open>uint32_t\<close> to \<open>float\<close>, and the product of two \<open>float\<close>s.\<close>

definition float_of_uint32 :: "32 word \<Rightarrow> c_float" where
  "float_of_uint32 w = round_binary32 (of_nat (unat w))"

fun flt_mul :: "c_float \<Rightarrow> c_float \<Rightarrow> c_float" where
  "flt_mul (Finite a) (Finite b) = round_binary32 (a * b)"
| "flt_mul NaN y = NaN"
| "flt_mul x NaN = NaN"
| "flt_mul (Finite a) PlusInf = (if a = 0 then NaN else if 0 < a then PlusInf else MinusInf)"
| "flt_mul (Finite a) MinusInf = (if a = 0 then NaN else if 0 < a then MinusInf else PlusInf)"
| "flt_mul PlusInf (Finite b) = (if b = 0 then NaN else if 0 < b then PlusInf else MinusInf)"
| "flt_mul MinusInf (Finite b) = (if b = 0 then NaN else if 0 < b then MinusInf else PlusInf)"
| "flt_mul PlusInf PlusInf = PlusInf"
| "flt_mul MinusInf MinusInf = PlusInf"
| "flt_mul PlusInf MinusInf = MinusInf"
| "flt_mul MinusInf PlusInf = MinusInf"

section \<open>The environment of an invocation\<close>

text \<open>
  What the invocation cannot decide by itself: the number of devices, which devices
  activate, which device operations succeed and what the collaborators return. An
  operation is identified by its position in the sequence of operations.

  Two operations of the source have no defined result for some operands: the shift
  \<open>1u << devices\<close> when \<open>devices \<ge> 32\<close>, and the conversion of a \<open>float\<close> to
  \<open>uint32_t\<close> when the truncated value does not fit (or the operand is a NaN). The value
  the platform then produces is part of the environment, so that a theorem which does not
  exclude these operands holds for every such value.
\<close>

record cuda_env =
  device_count :: nat
  set_device_ok :: "nat \<Rightarrow> bool"
  cuda_ok :: "nat \<Rightarrow> bool"
  collaborator :: "nat \<Rightarrow> KMCUDAResult"
  undefined_shift :: "32 word"
  undefined_conversion :: "32 word"

text \<open>
  The conversion of a \<open>float\<close> to \<open>uint32_t\<close> truncates towards zero; it is defined for
  operands strictly between \<open>-1\<close> and \<open>2^32\<close>.
\<close>

definition float_to_uint32 :: "cuda_env \<Rightarrow> c_float \<Rightarrow> 32 word" where
  "float_to_uint32 env x =
     (case x of
        Finite r \<Rightarrow> if - 1 < r \<and> r < 2 ^ 32 then word_of_nat (nat \<lfloor>r\<rfloor>)
                    else undefined_conversion env
      | _ \<Rightarrow> undefined_conversion env)"

section \<open>Argument validation\<close>

text \<open>
  \<open>check_args\<close>. \<open>tolerance < 0\<close>, \<open>tolerance > 1\<close>, \<open>yinyang_t < 0\<close> and
  \<open>yinyang_t > 0.5\<close> are ordered comparisons of a \<open>float\<close> with a constant that is
  exact in every floating-point type; a NaN fails all four and so passes the validation.
  \<open>cudaGetDeviceCount\<close> stores the \<open>device_count\<close> of the environment.
\<close>

definition UINT32_MAX :: "32 word" where
  "UINT32_MAX = 4294967295"

definition check_args ::
  "cuda_env \<Rightarrow> c_float \<Rightarrow> c_float \<Rightarrow> 32 word \<Rightarrow> 16 word \<Rightarrow> 32 word \<Rightarrow> 32 word \<Rightarrow> ptr
     \<Rightarrow> ptr \<Rightarrow> ptr \<Rightarrow> KMCUDAResult" where
  "check_args env tolerance yinyang_t samples_size features_size clusters_size device
       samples centroids assignments =
    (if clusters_size < 2 \<or> clusters_size = UINT32_MAX then kmcudaInvalidArguments
     else if features_size = 0 then kmcudaInvalidArguments
     else if samples_size < clusters_size then kmcudaInvalidArguments
     else if device = 0 then kmcudaNoSuchDevice
     else
       (let devices = device_count env
        in if device > (if devices < 32 then push_bit devices 1 else undefined_shift env)
           then kmcudaNoSuchDevice
           else if samples = nullptr \<or> centroids = nullptr \<or> assignments = nullptr
             then kmcudaInvalidArguments
           else if flt_less tolerance (Finite 0) \<or> flt_less (Finite 1) tolerance
             then kmcudaInvalidArguments
           else if flt_less yinyang_t (Finite 0) \<or> flt_less (Finite (1 / 2)) yinyang_t
             then kmcudaInvalidArguments
           else kmcudaSuccess))"


section \<open>Topology resolution\<close>

text \<open>
  \<open>setup_devices\<close>: the loop \<open>for (dev = 0; device; dev++)\<close> shifts the selector right
  by one bit per round. \<open>set_ok dev\<close> says whether \<open>cudaSetDevice(dev)\<close> succeeds; a
  device that fails is pushed and popped again, as in the source.
\<close>

function setup_devices_loop :: "(nat \<Rightarrow> bool) \<Rightarrow> nat \<Rightarrow> 32 word \<Rightarrow> nat list \<Rightarrow> nat list" where
  "setup_devices_loop set_ok dev device devs =
     (if device = 0 then devs
      else setup_devices_loop set_ok (dev + 1) (drop_bit 1 device)
             (if device AND 1 \<noteq> 0
              then (let pushed = devs @ [dev]
                    in if set_ok dev then pushed else butlast pushed)
              else devs))"
  by pat_completeness auto
termination
proof (relation "measure (\<lambda>(set_ok, dev, device, devs). unat device)")
  show "wf (measure (\<lambda>(set_ok, dev, device, devs). unat device))"
    by simp
next
  fix set_ok :: "nat \<Rightarrow> bool" and dev :: nat and device :: "32 word" and devs :: "nat list"
  assume nz: "device \<noteq> 0"
  then have "0 < unat device"
    by (simp add: unat_gt_0)
  then have "unat device div 2 < unat device"
    by simp
  then have "unat (drop_bit 1 device) < unat device"
    by (simp add: drop_bit_eq_div unat_div)
  then show "((set_ok, dev + 1, drop_bit 1 device,
               if device AND 1 \<noteq> 0
               then let pushed = devs @ [dev] in if set_ok dev then pushed else butlast pushed
               else devs),
              set_ok, dev, device, devs)
             \<in> measure (\<lambda>(set_ok, dev, device, devs). unat device)"
    by simp
qed

declare setup_devices_loop.simps [simp del]

definition setup_devices :: "(nat \<Rightarrow> bool) \<Rightarrow> 32 word \<Rightarrow> nat list" where
  "setup_devices set_ok device = setup_devices_loop set_ok 0 device []"


section \<open>K-means++ seeding: the search for the next centroid\<close>

text \<open>
  One round of the loop of \<open>kmeans_init_centroids\<close> (method \<open>kmcudaInitMethodPlusPlus\<close>),
  from the draw of \<open>choice\<close> to the assertion on \<open>j\<close>. The distance array, \<open>dist_sum\<close>
  and the running sums are floating-point numbers in the source; here they are rationals,
  so rounding is abstracted away (the concrete inputs used below are small integers and
  fractions far from any comparison threshold, on which both agree). \<open>j\<close>,
  \<open>choice_approx\<close> and \<open>samples_size\<close> are \<open>uint32_t\<close> in the source and never exceed
  \<open>samples_size + 1\<close>, so they are natural numbers here.

  A read of \<open>host_dists[t]\<close> outside the array and a failed \<open>assert\<close> are results of
  the model.
\<close>

datatype fault = OutOfBounds nat | AssertionFailed

definition host_dists_at :: "rat list \<Rightarrow> nat \<Rightarrow> fault + rat" where
  "host_dists_at host_dists t =
     (if t < length host_dists then Inr (host_dists ! t) else Inl (OutOfBounds t))"

text \<open>\<open>double choice = (rand() + .0) / RAND_MAX\<close>, with \<open>rnd\<close> the value of \<open>rand()\<close>.\<close>

definition draw_choice :: "nat \<Rightarrow> nat \<Rightarrow> rat" where
  "draw_choice rnd rand_max = of_nat rnd / of_nat rand_max"

text \<open>
  \<open>for (j = j0; j < samples_size && dist_sum2 < choice_sum; j++) dist_sum2 += host_dists[j]\<close>:
  the linear scan (from \<open>0\<close>) and the forward continuation (from \<open>choice_approx\<close>).
\<close>

function scan_forward :: "rat list \<Rightarrow> nat \<Rightarrow> rat \<Rightarrow> nat \<Rightarrow> rat \<Rightarrow> fault + nat" where
  "scan_forward host_dists samples_size choice_sum j dist_sum2 =
     (if j < samples_size \<and> dist_sum2 < choice_sum
      then (case host_dists_at host_dists j of
              Inl e \<Rightarrow> Inl e
            | Inr d \<Rightarrow> scan_forward host_dists samples_size choice_sum (j + 1) (dist_sum2 + d))
      else Inr j)"
  by pat_completeness auto
termination
  by (relation "measure (\<lambda>(host_dists, samples_size, choice_sum, j, dist_sum2). samples_size - j)")
     auto

text \<open>\<open>for (t = 0; t < choice_approx; t++) dist_sum2 += host_dists[t]\<close>.\<close>

function prefix_sum :: "rat list \<Rightarrow> nat \<Rightarrow> nat \<Rightarrow> rat \<Rightarrow> fault + rat" where
  "prefix_sum host_dists choice_approx t dist_sum2 =
     (if t < choice_approx
      then (case host_dists_at host_dists t of
              Inl e \<Rightarrow> Inl e
            | Inr d \<Rightarrow> prefix_sum host_dists choice_approx (t + 1) (dist_sum2 + d))
      else Inr dist_sum2)"
  by pat_completeness auto
termination
  by (relation "measure (\<lambda>(host_dists, choice_approx, t, dist_sum2). choice_approx - t)") auto

text \<open>
  \<open>for (j = choice_approx; j > 1 && dist_sum2 >= choice_sum; j--) dist_sum2 -= host_dists[j]\<close>.
\<close>

function scan_backward :: "rat list \<Rightarrow> rat \<Rightarrow> nat \<Rightarrow> rat \<Rightarrow> fault + nat" where
  "scan_backward host_dists choice_sum j dist_sum2 =
     (if j > 1 \<and> dist_sum2 \<ge> choice_sum
      then (case host_dists_at host_dists j of
              Inl e \<Rightarrow> Inl e
            | Inr d \<Rightarrow> scan_backward host_dists choice_sum (j - 1) (dist_sum2 - d))
      else Inr j)"
  by pat_completeness auto
termination
  by (relation "measure (\<lambda>(host_dists, choice_sum, j, dist_sum2). j)") auto

text \<open>
  A distance array of 200 samples: a hundred \<open>1\<close>s, one \<open>0\<close> at index 100, and
  ninety-nine \<open>1\<close>s. Every entry and every partial sum is an integer below \<open>200\<close>.
\<close>

definition skewed_dists :: "rat list" where
  "skewed_dists = replicate 100 1 @ [0] @ replicate 99 1"

text \<open>The first block of the round (the plain scan whose \<open>j\<close> the next block overwrites).\<close>

definition naive_scan :: "rat list \<Rightarrow> nat \<Rightarrow> rat \<Rightarrow> rat \<Rightarrow> fault + nat" where
  "naive_scan host_dists samples_size dist_sum choice =
     scan_forward host_dists samples_size (choice * dist_sum) 0 0"

text \<open>The second block: the value of \<open>j\<close> that reaches \<open>assert(j > 0)\<close>.\<close>

definition choose_j :: "rat list \<Rightarrow> nat \<Rightarrow> rat \<Rightarrow> rat \<Rightarrow> fault + nat" where
  "choose_j host_dists samples_size dist_sum choice =
     (let choice_approx = nat \<lfloor>choice * of_nat samples_size\<rfloor>;
          choice_sum = choice * dist_sum
      in if choice_approx < 100
         then scan_forward host_dists samples_size choice_sum 0 0
         else (case prefix_sum host_dists choice_approx 0 0 of
                 Inl e \<Rightarrow> Inl e
               | Inr dist_sum2 \<Rightarrow>
                   if dist_sum2 < choice_sum
                   then scan_forward host_dists samples_size choice_sum choice_approx dist_sum2
                   else (case scan_backward host_dists choice_sum choice_approx dist_sum2 of
                           Inl e \<Rightarrow> Inl e
                         | Inr j \<Rightarrow> Inr (j + 1))))"

text \<open>
  The whole round: both blocks, the assertion, and the index \<open>j - 1\<close> of the sample row
  that is copied into the centroid row.
\<close>

definition kmpp_round :: "rat list \<Rightarrow> nat \<Rightarrow> rat \<Rightarrow> rat \<Rightarrow> fault + nat" where
  "kmpp_round host_dists samples_size dist_sum choice =
     (case naive_scan host_dists samples_size dist_sum choice of
        Inl e \<Rightarrow> Inl e
      | Inr j0 \<Rightarrow>
          (case choose_j host_dists samples_size dist_sum choice of
             Inl e \<Rightarrow> Inl e
           | Inr j \<Rightarrow> if j > 0 then Inr (j - 1) else Inl AssertionFailed))"


section \<open>Device memory planning and the pipeline of \<open>kmeans_cuda\<close>\<close>

text \<open>
  A \<open>unique_devptr\<close> is a device pointer with the flag that says it must not be released
  (the second argument of \<open>emplace_back(p, true)\<close>); \<open>udevptrs\<close> is a vector of them, one
  entry per \<open>emplace_back\<close>. The vectors that \<open>kmeans_cuda\<close> declares are named by the
  constructors of \<open>buffer\<close>.
\<close>

datatype unique_devptr = DevPtr (get: ptr) (fake: bool)

type_synonym udevptrs = "unique_devptr list"

datatype buffer =
    device_samples
  | device_centroids
  | device_assignments
  | device_assignments_prev
  | device_ccounts
  | device_assignments_yy
  | device_passed_yy
  | device_bounds_yy
  | device_drifts_yy
  | device_centroids_yy

text \<open>
  The operations that touch a device or call a collaborator, in the order in which the
  invocation issues them: an allocation (destination vector, device, number of elements),
  the asynchronous upload of the samples (index of the device, destination, source, number
  of elements), the memory query, the three collaborators (with the group count they are
  given), and the two kinds of copy-out (destination, source and number of bytes; for the
  peer copy also the two devices).
\<close>

datatype event =
    cudaMalloc buffer nat nat
  | cudaMemcpyAsync_H2D nat ptr ptr nat
  | cudaMemGetInfo
  | kmeans_cuda_setup "32 word"
  | kmeans_init_centroids
  | kmeans_cuda_yy "32 word"
  | cudaMemcpy_D2H ptr ptr nat
  | cudaMemcpyPeer ptr int ptr nat nat

record kmeans_state =
  trace :: "event list"
  bufs :: "buffer \<Rightarrow> udevptrs"
  must_copy_result :: bool

type_synonym step = "kmeans_state \<Rightarrow> KMCUDAResult \<times> kmeans_state"

definition initial_state :: kmeans_state where
  "initial_state = \<lparr>trace = [], bufs = (\<lambda>b. []), must_copy_result = True\<rparr>"

definition emplace_back :: "buffer \<Rightarrow> unique_devptr \<Rightarrow> kmeans_state \<Rightarrow> kmeans_state" where
  "emplace_back dest p s = s\<lparr>bufs := (bufs s)(dest := bufs s dest @ [p])\<rparr>"

text \<open>
  The macros of the private header, which is not part of the translated file.

  Modelled from the spec: \<open>RETERR\<close>, \<open>CUCH\<close>, \<open>FOR_ALL_DEVS\<close>, \<open>FOR_ALL_DEVSI\<close>,
  \<open>CUMALLOC_ONE\<close>, \<open>CUMALLOC\<close> and \<open>CUMEMCPY_H2D_ASYNC\<close>. The specification says that the
  first failure aborts the remaining pipeline and returns that specific code, that the
  iteration over the devices is macro-driven with early return on error, that an
  allocation is made per participating device and that a failed allocation is
  \<open>MemoryAllocationError\<close> and a failed transfer \<open>MemoryCopyError\<close>.
\<close>

definition RETERR :: "step \<Rightarrow> step \<Rightarrow> step" where
  "RETERR call rest s =
     (case call s of (r, s') \<Rightarrow> if r = kmcudaSuccess then rest s' else (r, s'))"

definition CUCH :: "cuda_env \<Rightarrow> event \<Rightarrow> KMCUDAResult \<Rightarrow> step" where
  "CUCH env cuda_call ret s =
     (if cuda_ok env (length (trace s)) then kmcudaSuccess else ret,
      s\<lparr>trace := trace s @ [cuda_call]\<rparr>)"

definition call_collaborator :: "cuda_env \<Rightarrow> event \<Rightarrow> step" where
  "call_collaborator env call s =
     (collaborator env (length (trace s)), s\<lparr>trace := trace s @ [call]\<rparr>)"

fun FOR_ALL_DEVS :: "(nat \<Rightarrow> step) \<Rightarrow> nat list \<Rightarrow> step" where
  "FOR_ALL_DEVS body [] s = (kmcudaSuccess, s)"
| "FOR_ALL_DEVS body (dev # devs) s =
     (case body dev s of
        (r, s') \<Rightarrow> if r = kmcudaSuccess then FOR_ALL_DEVS body devs s' else (r, s'))"

definition FOR_ALL_DEVSI :: "(nat \<Rightarrow> step) \<Rightarrow> nat list \<Rightarrow> step" where
  "FOR_ALL_DEVSI body devs = FOR_ALL_DEVS body [0..<length devs]"

definition CUMALLOC_ONE :: "cuda_env \<Rightarrow> buffer \<Rightarrow> nat \<Rightarrow> nat \<Rightarrow> step" where
  "CUMALLOC_ONE env dest count dev s =
     (case CUCH env (cudaMalloc dest dev count) kmcudaMemoryAllocationFailure s of
        (r, s') \<Rightarrow>
          if r = kmcudaSuccess
          then (kmcudaSuccess, emplace_back dest (DevPtr (Cuda (length (trace s))) False) s')
          else (r, s'))"

definition CUMALLOC :: "cuda_env \<Rightarrow> buffer \<Rightarrow> nat \<Rightarrow> nat list \<Rightarrow> step" where
  "CUMALLOC env dest count devs = FOR_ALL_DEVS (CUMALLOC_ONE env dest count) devs"

definition CUMEMCPY_H2D_ASYNC :: "cuda_env \<Rightarrow> buffer \<Rightarrow> ptr \<Rightarrow> nat \<Rightarrow> nat list \<Rightarrow> step" where
  "CUMEMCPY_H2D_ASYNC env dst src count devs =
     FOR_ALL_DEVSI
       (\<lambda>devi s. CUCH env (cudaMemcpyAsync_H2D devi (get (bufs s dst ! devi)) src count)
                    kmcudaMemoryCopyError s)
       devs"

text \<open>\<open>print_memory_stats\<close>: only the query can fail.\<close>

definition print_memory_stats :: "cuda_env \<Rightarrow> step" where
  "print_memory_stats env = CUCH env cudaMemGetInfo kmcudaRuntimeError"

text \<open>
  \<open>uint32_t yinyang_groups = yinyang_t * clusters_size\<close>: \<open>clusters_size\<close> is converted
  to \<open>float\<close>, the product is a \<open>float\<close>, and the initialisation truncates it. (The
  product is taken to be rounded to single precision, as it is where \<open>float\<close>
  expressions are evaluated in their own type.)
\<close>

definition yinyang_groups_of :: "cuda_env \<Rightarrow> c_float \<Rightarrow> 32 word \<Rightarrow> 32 word" where
  "yinyang_groups_of env yinyang_t clusters_size =
     float_to_uint32 env (flt_mul yinyang_t (float_of_uint32 clusters_size))"

text \<open>The blocks of \<open>kmeans_cuda\<close>, in the order of the source.\<close>

definition plan_samples :: "cuda_env \<Rightarrow> nat \<Rightarrow> int \<Rightarrow> ptr \<Rightarrow> nat list \<Rightarrow> step" where
  "plan_samples env device_samples_size device_ptrs samples devs =
     (if device_ptrs < 0
      then RETERR (CUMALLOC env device_samples device_samples_size devs)
             (CUMEMCPY_H2D_ASYNC env device_samples samples device_samples_size devs)
      else (\<lambda>s. (kmcudaSuccess, emplace_back device_samples (DevPtr samples True) s)))"

definition plan_centroids :: "cuda_env \<Rightarrow> nat \<Rightarrow> int \<Rightarrow> ptr \<Rightarrow> nat list \<Rightarrow> step" where
  "plan_centroids env centroids_size device_ptrs centroids devs =
     FOR_ALL_DEVS
       (\<lambda>dev s. if int dev = device_ptrs
                 then (kmcudaSuccess,
                       (emplace_back device_centroids (DevPtr centroids True) s)
                         \<lparr>must_copy_result := False\<rparr>)
                 else CUMALLOC_ONE env device_centroids centroids_size dev s)
       devs"

definition plan_assignments :: "cuda_env \<Rightarrow> 32 word \<Rightarrow> int \<Rightarrow> ptr \<Rightarrow> nat list \<Rightarrow> step" where
  "plan_assignments env samples_size device_ptrs assignments devs =
     FOR_ALL_DEVS
       (\<lambda>dev s. if int dev = device_ptrs
                 then (kmcudaSuccess,
                       emplace_back device_assignments (DevPtr assignments True) s)
                 else CUMALLOC_ONE env device_assignments (unat samples_size) dev s)
       devs"

text \<open>
  The scratch buffers of the accelerated variant. \<open>yinyang_groups * features_size\<close> is a
  product of a \<open>uint32_t\<close> and a promoted \<open>uint16_t\<close>, hence taken modulo \<open>2^32\<close> before
  it is stored in the \<open>size_t\<close>; so is \<open>clusters_size + yinyang_groups\<close>. The other
  sizes are computed in \<open>size_t\<close> and cannot wrap.
\<close>

definition plan_yinyang ::
  "cuda_env \<Rightarrow> 32 word \<Rightarrow> 16 word \<Rightarrow> 32 word \<Rightarrow> nat \<Rightarrow> 32 word \<Rightarrow> nat list \<Rightarrow> step" where
  "plan_yinyang env samples_size features_size clusters_size centroids_size yinyang_groups devs =
     (if yinyang_groups \<ge> 1
      then
        RETERR (CUMALLOC env device_assignments_yy (unat clusters_size) devs)
       (RETERR (CUMALLOC env device_bounds_yy
                  (unat samples_size * unat (yinyang_groups + 1)) devs)
       (RETERR (CUMALLOC env device_drifts_yy (centroids_size + unat clusters_size) devs)
       (RETERR (CUMALLOC env device_passed_yy (unat samples_size) devs)
          (let yyc_size = unat (yinyang_groups * ucast features_size)
           in if yyc_size + unat (clusters_size + yinyang_groups) \<le> unat samples_size
              then (\<lambda>s. (kmcudaSuccess,
                          s\<lparr>bufs := (bufs s)(device_centroids_yy :=
                                 bufs s device_centroids_yy
                                 @ map (\<lambda>p. DevPtr (get p) True) (bufs s device_passed_yy))\<rparr>))
              else CUMALLOC env device_centroids_yy yyc_size devs))))
      else (\<lambda>s. (kmcudaSuccess, s)))"

text \<open>
  From the memory query to the refinement. \<open>kmeans_init_centroids\<close> is called here for its
  result code only, which the environment supplies as it does for the two external
  collaborators: the code depends on device copies and on \<open>kmeans_cuda_plus_plus\<close>.
\<close>

definition run_collaborators :: "cuda_env \<Rightarrow> int \<Rightarrow> 32 word \<Rightarrow> step" where
  "run_collaborators env verbosity yinyang_groups =
     RETERR (if verbosity > 1 then print_memory_stats env else (\<lambda>s. (kmcudaSuccess, s)))
    (RETERR (call_collaborator env (kmeans_cuda_setup yinyang_groups))
    (RETERR (call_collaborator env kmeans_init_centroids)
            (call_collaborator env (kmeans_cuda_yy yinyang_groups))))"

text \<open>The copy-out at the end of \<open>kmeans_cuda\<close>.\<close>

definition copy_result ::
  "cuda_env \<Rightarrow> 32 word \<Rightarrow> nat \<Rightarrow> int \<Rightarrow> ptr \<Rightarrow> ptr \<Rightarrow> nat list \<Rightarrow> step" where
  "copy_result env samples_size centroids_size device_ptrs centroids assignments devs s =
     (if must_copy_result s
      then (if device_ptrs < 0
            then RETERR
                   (CUCH env (cudaMemcpy_D2H centroids (get (bufs s device_centroids ! 0))
                                (centroids_size * 4)) kmcudaMemoryCopyError)
                   (CUCH env (cudaMemcpy_D2H assignments (get (bufs s device_assignments ! 0))
                                (unat samples_size * 4)) kmcudaMemoryCopyError) s
            else RETERR
                   (CUCH env (cudaMemcpyPeer centroids device_ptrs
                                (get (bufs s device_centroids ! 0)) (devs ! 0)
                                (centroids_size * 4)) kmcudaMemoryCopyError)
                   (CUCH env (cudaMemcpyPeer assignments device_ptrs
                                (get (bufs s device_assignments ! 0)) (devs ! 0)
                                (unat samples_size * 4)) kmcudaMemoryCopyError) s)
      else (kmcudaSuccess, s))"

text \<open>Everything of \<open>kmeans_cuda\<close> after the device set is known, up to the refinement.\<close>

definition plan_and_refine ::
  "cuda_env \<Rightarrow> c_float \<Rightarrow> 32 word \<Rightarrow> 16 word \<Rightarrow> 32 word \<Rightarrow> int \<Rightarrow> int \<Rightarrow> ptr \<Rightarrow> ptr
     \<Rightarrow> ptr \<Rightarrow> nat list \<Rightarrow> step" where
  "plan_and_refine env yinyang_t samples_size features_size clusters_size verbosity device_ptrs
       samples centroids assignments devs =
     (let device_samples_size = unat samples_size * unat features_size;
          centroids_size = unat clusters_size * unat features_size;
          yinyang_groups = yinyang_groups_of env yinyang_t clusters_size
      in RETERR (plan_samples env device_samples_size device_ptrs samples devs)
        (RETERR (plan_centroids env centroids_size device_ptrs centroids devs)
        (RETERR (plan_assignments env samples_size device_ptrs assignments devs)
        (RETERR (CUMALLOC env device_assignments_prev (unat samples_size) devs)
        (RETERR (CUMALLOC env device_ccounts (unat clusters_size) devs)
        (RETERR (plan_yinyang env samples_size features_size clusters_size centroids_size
                   yinyang_groups devs)
                (run_collaborators env verbosity yinyang_groups)))))))"

text \<open>
  \<open>kmeans_cuda\<close>: the result code and the state in which the invocation ends. Neither the
  device count query of \<open>check_args\<close> nor the activation attempts of \<open>setup_devices\<close>
  are recorded in the trace, which holds the allocations, the transfers and the
  collaborator calls.
\<close>

definition kmeans_cuda ::
  "cuda_env \<Rightarrow> bool \<Rightarrow> c_float \<Rightarrow> c_float \<Rightarrow> 32 word \<Rightarrow> 16 word \<Rightarrow> 32 word \<Rightarrow> 32 word
     \<Rightarrow> 32 word \<Rightarrow> int \<Rightarrow> int \<Rightarrow> ptr \<Rightarrow> ptr \<Rightarrow> ptr \<Rightarrow> KMCUDAResult \<times> kmeans_state" where
  "kmeans_cuda env kmpp tolerance yinyang_t samples_size features_size clusters_size seed device
       verbosity device_ptrs samples centroids assignments =
     (let r = check_args env tolerance yinyang_t samples_size features_size
                clusters_size device samples centroids assignments
      in if r \<noteq> kmcudaSuccess then (r, initial_state)
         else
           (let devs = setup_devices (set_device_ok env) device
            in if devs = [] then (kmcudaNoSuchDevice, initial_state)
               else RETERR
                      (plan_and_refine env yinyang_t samples_size features_size clusters_size
                         verbosity device_ptrs samples centroids assignments devs)
                      (copy_result env samples_size
                         (unat clusters_size * unat features_size) device_ptrs centroids
                         assignments devs)
                      initial_state))"

text \<open>An environment in which two devices exist and nothing fails.\<close>

definition all_ok :: cuda_env where
  "all_ok = \<lparr>device_count = 2, set_device_ok = (\<lambda>dev. True), cuda_ok = (\<lambda>k. True),
             collaborator = (\<lambda>k. kmcudaSuccess), undefined_shift = 0,
             undefined_conversion = 0\<rparr>"

text \<open>The same environment, except that device 0 cannot be activated.\<close>

definition device0_dead :: cuda_env where
  "device0_dead = all_ok\<lparr>set_device_ok := (\<lambda>dev. dev \<noteq> 0)\<rparr>"

section \<open>Reading a trace\<close>

text \<open>Allocations made for a given vector, copy-out transfers, scratch allocations.\<close>

fun is_malloc_of :: "buffer \<Rightarrow> event \<Rightarrow> bool" where
  "is_malloc_of b (cudaMalloc dest dev n) = (dest = b)"
| "is_malloc_of b e = False"

fun is_copy_out :: "event \<Rightarrow> bool" where
  "is_copy_out (cudaMemcpy_D2H dst src n) = True"
| "is_copy_out (cudaMemcpyPeer dst dst_dev src src_dev n) = True"
| "is_copy_out e = False"

definition scratch_buffers :: "buffer list" where
  "scratch_buffers =
     [device_assignments_yy, device_passed_yy, device_bounds_yy, device_drifts_yy,
      device_centroids_yy]"

fun is_scratch_malloc :: "event \<Rightarrow> bool" where
  "is_scratch_malloc (cudaMalloc dest dev n) = (dest \<in> set scratch_buffers)"
| "is_scratch_malloc e = False"

text \<open>The group count that a collaborator call carries.\<close>

fun group_count :: "event \<Rightarrow> 32 word option" where
  "group_count (kmeans_cuda_setup g) = Some g"
| "group_count (kmeans_cuda_yy g) = Some g"
| "group_count e = None"

text \<open>The caller's pointer that an entry of a vector aliases, if it is not an owned block.\<close>

definition alias_of :: "unique_devptr \<Rightarrow> ptr option" where
  "alias_of p = (if fake p then Some (get p) else None)"

text \<open>
  The copy-out as section 4.4 of the specification words it: \<open>clusters_size \<times> features_size\<close>
  floats of centroids and \<open>samples_size\<close> indices of assignments (four bytes each), from
  the buffers of the primary device, to host memory when the hint is negative and to the
  hinted device otherwise.
\<close>

definition expected_copy_out ::
  "32 word \<Rightarrow> 16 word \<Rightarrow> 32 word \<Rightarrow> int \<Rightarrow> ptr \<Rightarrow> ptr \<Rightarrow> nat list \<Rightarrow> kmeans_state
     \<Rightarrow> event list" where
  "expected_copy_out samples_size features_size clusters_size device_ptrs centroids assignments
       devs s =
     (if device_ptrs < 0
      then [cudaMemcpy_D2H centroids (get (bufs s device_centroids ! 0))
              (4 * (unat clusters_size * unat features_size)),
            cudaMemcpy_D2H assignments (get (bufs s device_assignments ! 0))
              (4 * unat samples_size)]
      else [cudaMemcpyPeer centroids device_ptrs (get (bufs s device_centroids ! 0)) (devs ! 0)
              (4 * (unat clusters_size * unat features_size)),
            cudaMemcpyPeer assignments device_ptrs (get (bufs s device_assignments ! 0))
              (devs ! 0) (4 * unat samples_size)])"

text \<open>
  Frame conditions of a step, holding whether it succeeds or fails: every operation it
  issues satisfies \<open>P\<close> and it changes no vector outside \<open>B\<close>; it leaves the flag
  \<open>must_copy_result\<close> alone.
\<close>

definition touches :: "(event \<Rightarrow> bool) \<Rightarrow> buffer set \<Rightarrow> step \<Rightarrow> bool" where
  "touches P B f =
     (\<forall>s. (\<exists>es. trace (snd (f s)) = trace s @ es \<and> list_all P es)
          \<and> (\<forall>b. b \<notin> B \<longrightarrow> bufs (snd (f s)) b = bufs s b))"

definition keeps_flag :: "step \<Rightarrow> bool" where
  "keeps_flag f = (\<forall>s. must_copy_result (snd (f s)) = must_copy_result s)"

text \<open>An environment in which the second copy-out of a single-device, host-memory run fails.\<close>

definition assignments_copy_fails :: cuda_env where
  "assignments_copy_fails = all_ok\<lparr>cuda_ok := (\<lambda>k. k \<noteq> 10)\<rparr>"

section \<open>Argument validation: order and result codes\<close>

lemma check_args_shape:
  "clusters_size < 2 \<or> clusters_size = UINT32_MAX \<or> features_size = 0 \<or> samples_size < clusters_size
   \<Longrightarrow> check_args env tolerance yinyang_t samples_size features_size clusters_size device
         samples centroids assignments = kmcudaInvalidArguments"
  by (auto simp: check_args_def)

lemma check_args_device_zero:
  "\<not> clusters_size < 2 \<Longrightarrow> clusters_size \<noteq> UINT32_MAX \<Longrightarrow> features_size \<noteq> 0 \<Longrightarrow>
   \<not> samples_size < clusters_size \<Longrightarrow>
   check_args env tolerance yinyang_t samples_size features_size clusters_size 0
         samples centroids assignments = kmcudaNoSuchDevice"
  by (simp add: check_args_def)

lemma one_shl_devices: "devices < 32 \<Longrightarrow> unat (push_bit devices (1 :: 32 word)) = 2 ^ devices"
proof -
  assume d: "devices < 32"
  have "unat (push_bit devices (1 :: 32 word)) = take_bit 32 (push_bit devices (unat (1 :: 32 word)))"
    using unsigned_push_bit_eq [where 'a = nat and 'b = 32, of devices 1] by simp
  also have "\<dots> = take_bit 32 ((2::nat) ^ devices)"
    by (simp add: push_bit_eq_mult)
  also have "\<dots> = 2 ^ devices"
    using d by (simp add: take_bit_nat_eq_self)
  finally show ?thesis .
qed

lemma unat_two_power: "devices < 32 \<Longrightarrow> unat ((2 :: 32 word) ^ devices) = 2 ^ devices"
  using one_shl_devices [of devices] by simp




text \<open>A NaN tolerance or fraction passes the validation when everything else is valid.\<close>

lemma check_args_accepts_NaN:
  assumes "\<not> clusters_size < 2" "clusters_size \<noteq> UINT32_MAX" "features_size \<noteq> 0"
    "\<not> samples_size < clusters_size" "device \<noteq> 0" "device_count env < 32"
    "unat device \<le> 2 ^ device_count env"
    "samples \<noteq> nullptr" "centroids \<noteq> nullptr" "assignments \<noteq> nullptr"
  shows "check_args env NaN NaN samples_size features_size clusters_size device
           samples centroids assignments = kmcudaSuccess"
proof -
  have "\<not> device > push_bit (device_count env) 1"
    using assms(6,7) by (simp add: word_less_nat_alt unat_two_power)
  with assms show ?thesis
    by (simp add: check_args_def Let_def)
qed

text \<open>
  Claim C3, as amended. In \<open>check_args\<close> the test of the device selector comes after the
  three tests of the shape (\<open>clusters_size\<close>, \<open>features_size\<close>, \<open>samples_size\<close>) and
  before the tests of the pointers, of the tolerance and of the accelerated fraction. So a
  call with device selector \<open>0\<close> returns \<open>kmcudaNoSuchDevice\<close> exactly when the shape is
  valid, whatever the pointers, the tolerance and the fraction are, and
  \<open>kmcudaInvalidArguments\<close> when a shape rule is violated; in both cases no device
  operation has been issued.
\<close>

theorem device_zero_after_shape_checks:
  "kmeans_cuda env kmpp tolerance yinyang_t samples_size features_size clusters_size seed 0
     verbosity device_ptrs samples centroids assignments =
   (if clusters_size < 2 \<or> clusters_size = UINT32_MAX \<or> features_size = 0
         \<or> samples_size < clusters_size
    then (kmcudaInvalidArguments, initial_state)
    else (kmcudaNoSuchDevice, initial_state))"
proof (cases "clusters_size < 2 \<or> clusters_size = UINT32_MAX \<or> features_size = 0
         \<or> samples_size < clusters_size")
  case True
  then show ?thesis
    using check_args_shape [OF True] by (simp add: kmeans_cuda_def)
next
  case False
  then show ?thesis
    using check_args_device_zero [of clusters_size features_size samples_size]
    by (simp add: kmeans_cuda_def)
qed

text \<open>
  The theorem at a call with selector \<open>0\<close>, tolerance \<open>3/2\<close>, fraction \<open>1\<close> and three
  null pointers (valid shape), and at a call with selector \<open>0\<close> and \<open>features_size = 0\<close>.
\<close>

theorem device_zero_after_shape_checks_witness:
  "kmeans_cuda all_ok True (Finite (3 / 2)) (Finite 1) 5 1 2 0 0 0 (- 1) nullptr nullptr nullptr
     = (kmcudaNoSuchDevice, initial_state)
   \<and> kmeans_cuda all_ok True (Finite 0) (Finite 0) 5 0 2 0 0 0 (- 1)
       (Caller 1) (Caller 2) (Caller 3)
     = (kmcudaInvalidArguments, initial_state)"
  using device_zero_after_shape_checks [of all_ok True "Finite (3 / 2)" "Finite 1" 5 1 2 0 0
          "- 1" nullptr nullptr nullptr]
        device_zero_after_shape_checks [of all_ok True "Finite 0" "Finite 0" 5 0 2 0 0 "- 1"
          "Caller 1" "Caller 2" "Caller 3"]
  by (simp add: UINT32_MAX_def)

text \<open>
  The claim as it was stated fails: with selector \<open>0\<close> and \<open>clusters_size = 1\<close> the result
  is \<open>kmcudaInvalidArguments\<close>.
\<close>

theorem device_zero_counterexample:
  "fst (kmeans_cuda all_ok False (Finite 0) (Finite 0) 5 1 1 0 0 0 (- 1)
          (Caller 1) (Caller 2) (Caller 3))
     = kmcudaInvalidArguments
   \<and> fst (kmeans_cuda all_ok False (Finite 0) (Finite 0) 5 1 1 0 0 0 (- 1)
            (Caller 1) (Caller 2) (Caller 3))
     \<noteq> kmcudaNoSuchDevice"
  by (simp add: kmeans_cuda_def check_args_def)




section \<open>Single-precision arithmetic: evaluation and range\<close>

text \<open>Floors and ceilings of quotients of numerals, for the evaluation of concrete inputs.\<close>

lemma floor_rat_numeral [simp]:
  "\<lfloor>(numeral a :: rat) / numeral b\<rfloor> = numeral a div numeral b"
  using floor_divide_of_int_eq [of "numeral a" "numeral b", where ?'a = rat] by simp

lemma floor_rat_one_numeral [simp]: "\<lfloor>(1 :: rat) / numeral b\<rfloor> = 1 div numeral b"
  using floor_divide_of_int_eq [of 1 "numeral b", where ?'a = rat] by simp

lemma floor_rat_neg_numeral [simp]:
  "\<lfloor>- ((numeral a :: rat) / numeral b)\<rfloor> = - numeral a div numeral b"
  using floor_divide_of_int_eq [of "- numeral a" "numeral b", where ?'a = rat] by simp

lemma ceiling_rat_numeral [simp]:
  "\<lceil>(numeral a :: rat) / numeral b\<rceil> = - (- numeral a div numeral b)"
  using floor_divide_of_int_eq [of "- numeral a" "numeral b", where ?'a = rat]
  by (simp add: ceiling_def)

lemma ceiling_rat_one_numeral [simp]: "\<lceil>(1 :: rat) / numeral b\<rceil> = - (- 1 div numeral b)"
  using floor_divide_of_int_eq [of "- 1" "numeral b", where ?'a = rat]
  by (simp add: ceiling_def)

lemmas float_defs =
  round_binary32_def round_half_even_def pow2_def ilog2_def bit_length.simps
  float_of_uint32_def float_to_uint32_def Let_def

text \<open>Rounding at a few rationals: ties, the subnormal range, the overflow threshold.\<close>

lemma round_binary32_examples:
  "round_binary32 (1 / 3) = Finite (11184811 / 33554432)"
  "round_binary32 33554435 = Finite 33554436"
  "round_binary32 (29 * (9256395 / 268435456)) = Finite 1"
  "round_binary32 (16777217 / 2) = Finite 8388608"
  "round_binary32 (16777219 / 2) = Finite 8388610"
  "round_binary32 (3 / 2 ^ 150) = Finite (1 / 2 ^ 148)"
  "round_binary32 (2 ^ 128 - 2 ^ 103) = PlusInf"
  "round_binary32 (2 ^ 128 - 2 ^ 104) = Finite (2 ^ 128 - 2 ^ 104)"
  by (simp_all add: float_defs)

lemma bit_length_le: "n < 2 ^ k \<Longrightarrow> bit_length n \<le> k"
proof (induction k arbitrary: n)
  case 0
  then show ?case by (simp add: bit_length.simps)
next
  case (Suc k)
  show ?case
  proof (cases "n = 0")
    case True
    then show ?thesis by (simp add: bit_length.simps)
  next
    case False
    from Suc.prems have "n div 2 < 2 ^ k" by simp
    from Suc.IH [OF this] False show ?thesis
      by (subst bit_length.simps) simp
  qed
qed

lemma round_half_even_range:
  "of_int (round_half_even q) \<le> q + 1" "0 \<le> q \<Longrightarrow> 0 \<le> round_half_even q"
proof -
  have cases: "round_half_even q = \<lfloor>q\<rfloor> \<or> round_half_even q = \<lfloor>q\<rfloor> + 1"
    by (simp add: round_half_even_def Let_def)
  then have "round_half_even q \<le> \<lfloor>q\<rfloor> + 1"
    by auto
  then have "(of_int (round_half_even q) :: rat) \<le> of_int (\<lfloor>q\<rfloor> + 1)"
    by (simp only: of_int_le_iff)
  also have "\<dots> \<le> q + 1"
    by simp
  finally show "of_int (round_half_even q) \<le> q + 1" .
  assume "0 \<le> q"
  then have "0 \<le> \<lfloor>q\<rfloor>" by simp
  with cases show "0 \<le> round_half_even q"
    by auto
qed

lemma pow2_pos: "0 < pow2 e"
  by (simp add: pow2_def)

lemma pow2_le_256: "e \<le> 8 \<Longrightarrow> pow2 e \<le> 256"
proof (cases "0 \<le> e")
  case True
  assume "e \<le> 8"
  with True have "nat e \<le> 8" by simp
  then have "(2 :: rat) ^ nat e \<le> 2 ^ 8"
    by (intro power_increasing) simp_all
  with True show ?thesis
    by (simp add: pow2_def)
next
  case False
  have "(1 :: rat) \<le> 2 ^ nat (- e)"
    by simp
  then have "1 / 2 ^ nat (- e) \<le> (1 :: rat)"
    by (simp add: divide_le_eq)
  then have "1 / 2 ^ nat (- e) \<le> (256 :: rat)"
    by linarith
  with False show ?thesis
    by (simp only: pow2_def if_False)
qed

lemma round_binary32_of_nat:
  assumes "n < 2 ^ 32"
  shows "\<exists>r. round_binary32 (of_nat n) = Finite r \<and> 0 \<le> r"
proof (cases "n = 0")
  case True
  then show ?thesis
    by (simp add: round_binary32_def)
next
  case False
  define x :: rat where "x = of_nat n"
  define e where "e = max (ilog2 \<bar>x\<bar> - 23) (- 149)"
  define y where "y = of_int (round_half_even (x / pow2 e)) * pow2 e"
  from assms have x32: "x < 2 ^ 32"
    unfolding x_def by (metis of_nat_less_iff of_nat_numeral of_nat_power)
  from False have x1: "1 \<le> x"
    unfolding x_def by simp
  then have "ilog2 \<bar>x\<bar> = int (bit_length n) - 1"
    by (simp add: ilog2_def x_def)
  moreover have "bit_length n \<le> 32"
    by (rule bit_length_le) (rule assms)
  ultimately have e8: "e \<le> 8"
    unfolding e_def by simp
  have q0: "0 \<le> x / pow2 e"
    using x1 pow2_pos [of e] by simp
  from round_half_even_range(2) [OF q0] pow2_pos [of e] have y0: "0 \<le> y"
    unfolding y_def by simp
  have "y \<le> (x / pow2 e + 1) * pow2 e"
    unfolding y_def using round_half_even_range(1) [of "x / pow2 e"] pow2_pos [of e]
    by (simp add: mult_right_mono)
  also have "\<dots> = x + pow2 e"
    using pow2_pos [of e] by (simp add: field_simps)
  also have "\<dots> < 2 ^ 32 + 256"
    using x32 pow2_le_256 [OF e8] by simp
  also have "\<dots> < (2 :: rat) ^ 128"
    by simp
  finally have y128: "y < 2 ^ 128" .
  from x1 have "x \<noteq> 0" by simp
  with y0 y128 have "round_binary32 x = Finite y"
    unfolding round_binary32_def Let_def e_def [symmetric] y_def [symmetric] by simp
  with y0 show ?thesis
    unfolding x_def by blast
qed

lemma float_of_uint32_finite: "\<exists>r. float_of_uint32 w = Finite r \<and> 0 \<le> r"
proof -
  have "unat w < 2 ^ 32"
    using unsigned_less [of w] by simp
  from round_binary32_of_nat [OF this] show ?thesis
    unfolding float_of_uint32_def .
qed

lemma yinyang_groups_of_fraction_zero: "yinyang_groups_of env (Finite 0) clusters_size = 0"
proof -
  obtain r where "float_of_uint32 clusters_size = Finite r"
    using float_of_uint32_finite [of clusters_size] by blast
  then show ?thesis
    by (simp add: yinyang_groups_of_def round_binary32_def float_to_uint32_def)
qed

text \<open>
  The group count at three inputs: a product that is below \<open>1\<close> in exact arithmetic and
  \<open>1\<close> in single precision; a cluster count that the conversion to \<open>float\<close> rounds; and
  a product without any rounding.
\<close>

lemma yinyang_groups_of_examples:
  "yinyang_groups_of env (Finite (9256395 / 268435456)) 29 = 1"
  "yinyang_groups_of env (Finite (1 / 2)) 33554435 = 16777218"
  "yinyang_groups_of env (Finite (1 / 2)) 131076 = 65538"
  by (simp_all add: yinyang_groups_of_def float_defs)

section \<open>K-means++ seeding: what the search returns\<close>

lemmas kmpp_defs =
  kmpp_round_def naive_scan_def choose_j_def draw_choice_def host_dists_at_def Let_def

text \<open>
  Claim C1: for every distance array, sample count and draw \<open>r\<close> in \<open>[0, 1)\<close>, the search
  policy (linear scan when \<open>approx < 100\<close>, else prefix sum up to \<open>approx\<close> and forward
  continuation or backward subtraction) selects the same index as the plain linear scan
  for the smallest \<open>j\<close> whose prefix sum reaches \<open>T\<close>.

  The code does not do so. The backward loop starts at \<open>j = choice_approx\<close> and subtracts
  \<open>host_dists[j]\<close>, an entry that the prefix sum over \<open>t < choice_approx\<close> never added.
  On \<open>skewed_dists\<close> with \<open>rand() = 2^30\<close> and \<open>RAND_MAX = 2^31 - 1\<close>: \<open>choice_approx\<close> is
  \<open>100\<close>, the target lies strictly between the sum of the first 99 entries and the sum of
  the first 100, the plain scan ends with \<open>j = 100\<close> (sample 99), the policy with \<open>j = 99\<close>
  (sample 98).
\<close>

theorem backward_scan_off_by_one:
  "length skewed_dists = 200
   \<and> sum_list skewed_dists = 199
   \<and> 0 \<le> draw_choice 1073741824 2147483647 \<and> draw_choice 1073741824 2147483647 < 1
   \<and> nat \<lfloor>draw_choice 1073741824 2147483647 * 200\<rfloor> = 100
   \<and> sum_list (take 99 skewed_dists) < draw_choice 1073741824 2147483647 * 199
   \<and> draw_choice 1073741824 2147483647 * 199 \<le> sum_list (take 100 skewed_dists)
   \<and> naive_scan skewed_dists 200 199 (draw_choice 1073741824 2147483647) = Inr 100
   \<and> choose_j skewed_dists 200 199 (draw_choice 1073741824 2147483647) = Inr 99
   \<and> kmpp_round skewed_dists 200 199 (draw_choice 1073741824 2147483647) = Inr 98"
  by (simp add: kmpp_defs skewed_dists_def nth_append sum_list_replicate)

text \<open>
  Claim C4: when the total distance \<open>S\<close> is \<open>0\<close>, the target is \<open>0\<close>, the search selects
  sample \<open>0\<close>, and the round completes normally without tripping an assertion.

  The code does not do so. With target \<open>0\<close> the linear scan stops before its first round,
  so \<open>j = 0\<close> and \<open>assert(j > 0)\<close> fails (two samples at distance \<open>0\<close>, any draw). When
  \<open>choice_approx \<ge> 100\<close> the backward loop runs down to \<open>j = 1\<close>, the increment gives
  \<open>j = 2\<close>, and sample \<open>1\<close> is selected rather than sample \<open>0\<close>.
\<close>

theorem zero_total_distance:
  "choose_j [0, 0] 2 0 (draw_choice 12345 2147483647) = Inr 0
   \<and> kmpp_round [0, 0] 2 0 (draw_choice 12345 2147483647) = Inl AssertionFailed
   \<and> choose_j (replicate 200 0) 200 0 (draw_choice 1073741824 2147483647) = Inr 2
   \<and> kmpp_round (replicate 200 0) 200 0 (draw_choice 1073741824 2147483647) = Inr 1"
  by (simp add: kmpp_defs)

text \<open>
  Claim C5: in every selection round with a finite, strictly positive total distance, each
  read of \<open>host_dists\<close> is inside the array, \<open>j \<ge> 1\<close> after the search (so the assertion
  holds), and the selected index \<open>j - 1\<close> is below \<open>samples_size\<close>.

  The code does not do so. When \<open>rand()\<close> returns \<open>0\<close> the target is \<open>0\<close> although the
  total distance is positive, the scan ends with \<open>j = 0\<close> and the assertion fails. When
  \<open>rand()\<close> returns \<open>RAND_MAX\<close>, \<open>choice_approx\<close> equals \<open>samples_size\<close> and, for 100
  samples or more, the backward loop reads \<open>host_dists[samples_size]\<close>.
\<close>

theorem positive_total_distance_faults:
  "choose_j [1, 1] 2 2 (draw_choice 0 2147483647) = Inr 0
   \<and> kmpp_round [1, 1] 2 2 (draw_choice 0 2147483647) = Inl AssertionFailed
   \<and> kmpp_round (replicate 200 1) 200 200 (draw_choice 2147483647 2147483647)
       = Inl (OutOfBounds 200)"
  by (simp add: kmpp_defs)

section \<open>K-means++ seeding: what the search guarantees\<close>

text \<open>
  The faults above need a draw at one of the two ends. For a draw \<open>0 \<le> r < 1\<close> and a
  positive target, every read of the search stays inside the array, and the search ends
  with \<open>1 \<le> j \<le> samples_size\<close>.
\<close>

declare scan_forward.simps [simp del] prefix_sum.simps [simp del] scan_backward.simps [simp del]

lemma scan_forward_total:
  "j \<le> samples_size \<Longrightarrow> samples_size \<le> length host_dists \<Longrightarrow>
   \<exists>j'. scan_forward host_dists samples_size choice_sum j dist_sum2 = Inr j'
        \<and> j \<le> j' \<and> j' \<le> samples_size
        \<and> (j < samples_size \<and> dist_sum2 < choice_sum \<longrightarrow> j < j')"
proof (induction host_dists samples_size choice_sum j dist_sum2 rule: scan_forward.induct)
  case (1 host_dists samples_size choice_sum j dist_sum2)
  show ?case
  proof (cases "j < samples_size \<and> dist_sum2 < choice_sum")
    case False
    then show ?thesis
      using "1.prems" by (subst scan_forward.simps) auto
  next
    case True
    with "1.prems" have rd: "host_dists_at host_dists j = Inr (host_dists ! j)"
      by (simp add: host_dists_at_def)
    from True "1.prems" have "j + 1 \<le> samples_size" by simp
    from "1.IH" [OF True rd this "1.prems"(2)]
    obtain j' where "scan_forward host_dists samples_size choice_sum (j + 1)
                       (dist_sum2 + host_dists ! j) = Inr j'"
      and "j + 1 \<le> j'" and "j' \<le> samples_size"
      by blast
    with True rd show ?thesis
      by (subst scan_forward.simps) auto
  qed
qed

lemma prefix_sum_total:
  "choice_approx \<le> length host_dists \<Longrightarrow>
   \<exists>s. prefix_sum host_dists choice_approx t dist_sum2 = Inr s"
proof (induction host_dists choice_approx t dist_sum2 rule: prefix_sum.induct)
  case (1 host_dists choice_approx t dist_sum2)
  show ?case
  proof (cases "t < choice_approx")
    case False
    then show ?thesis
      by (subst prefix_sum.simps) simp
  next
    case True
    with "1.prems" have rd: "host_dists_at host_dists t = Inr (host_dists ! t)"
      by (simp add: host_dists_at_def)
    from "1.IH" [OF True rd "1.prems"] True rd show ?thesis
      by (subst prefix_sum.simps) simp
  qed
qed

lemma scan_backward_total:
  "j < length host_dists \<Longrightarrow>
   \<exists>j'. scan_backward host_dists choice_sum j dist_sum2 = Inr j' \<and> j' \<le> j \<and> (1 \<le> j \<longrightarrow> 1 \<le> j')"
proof (induction host_dists choice_sum j dist_sum2 rule: scan_backward.induct)
  case (1 host_dists choice_sum j dist_sum2)
  show ?case
  proof (cases "j > 1 \<and> dist_sum2 \<ge> choice_sum")
    case False
    then show ?thesis
      by (subst scan_backward.simps) auto
  next
    case True
    with "1.prems" have rd: "host_dists_at host_dists j = Inr (host_dists ! j)"
      by (simp add: host_dists_at_def)
    from "1.prems" have "j - 1 < length host_dists" by simp
    from "1.IH" [OF True rd this]
    obtain j' where "scan_backward host_dists choice_sum (j - 1) (dist_sum2 - host_dists ! j)
                       = Inr j'"
      and "j' \<le> j - 1" and "1 \<le> j - 1 \<longrightarrow> 1 \<le> j'"
      by blast
    with True rd show ?thesis
      by (subst scan_backward.simps) auto
  qed
qed

lemma choice_approx_less:
  assumes "0 \<le> choice" "choice < 1" "0 < samples_size"
  shows "nat \<lfloor>choice * of_nat samples_size\<rfloor> < samples_size"
proof -
  have "choice * of_nat samples_size < of_nat samples_size"
    using assms by simp
  then have "\<lfloor>choice * of_nat samples_size\<rfloor> < int samples_size"
    by (simp add: floor_less_iff)
  then show ?thesis
    using assms(3) by linarith
qed

lemma choose_j_in_range:
  assumes len: "length host_dists = samples_size" and n: "0 < samples_size"
    and r: "0 \<le> choice" "choice < 1" and t: "0 < choice * dist_sum"
  shows "\<exists>j. choose_j host_dists samples_size dist_sum choice = Inr j
             \<and> 1 \<le> j \<and> j \<le> samples_size"
proof -
  let ?a = "nat \<lfloor>choice * of_nat samples_size\<rfloor>"
  let ?T = "choice * dist_sum"
  have a: "?a < samples_size"
    by (rule choice_approx_less [OF r n])
  show ?thesis
  proof (cases "?a < 100")
    case True
    from scan_forward_total [of 0 samples_size host_dists ?T 0] len n t
    obtain j where "scan_forward host_dists samples_size ?T 0 0 = Inr j" "0 < j"
      "j \<le> samples_size"
      by auto
    with True show ?thesis
      by (simp add: choose_j_def Let_def)
  next
    case False
    from prefix_sum_total [of ?a host_dists 0 0] a len
    obtain s where s: "prefix_sum host_dists ?a 0 0 = Inr s"
      by auto
    show ?thesis
    proof (cases "s < ?T")
      case True
      from scan_forward_total [of ?a samples_size host_dists ?T s] a len
      obtain j where "scan_forward host_dists samples_size ?T ?a s = Inr j" "?a \<le> j"
        "j \<le> samples_size"
        by auto
      with False True s show ?thesis
        by (simp add: choose_j_def Let_def)
    next
      case ge: False
      from scan_backward_total [of ?a host_dists ?T s] a len False
      obtain j where "scan_backward host_dists ?T ?a s = Inr j" "j \<le> ?a" "1 \<le> j"
        by auto
      with False ge s a show ?thesis
        by (simp add: choose_j_def Let_def)
    qed
  qed
qed

lemma kmpp_round_in_range:
  assumes len: "length host_dists = samples_size" and n: "0 < samples_size"
    and r: "0 \<le> choice" "choice < 1" and t: "0 < choice * dist_sum"
  shows "\<exists>i. kmpp_round host_dists samples_size dist_sum choice = Inr i \<and> i < samples_size"
proof -
  from scan_forward_total [of 0 samples_size host_dists "choice * dist_sum" 0] len
  obtain j0 where "naive_scan host_dists samples_size dist_sum choice = Inr j0"
    by (auto simp: naive_scan_def)
  moreover from choose_j_in_range [OF assms]
  obtain j where "choose_j host_dists samples_size dist_sum choice = Inr j" "1 \<le> j"
    "j \<le> samples_size"
    by blast
  ultimately show ?thesis
    by (simp add: kmpp_round_def)
qed

text \<open>
  The two branches of the policy that scan forward agree with the plain scan when no
  distance is negative: the linear scan is the plain scan, and a forward continuation
  starts from a prefix sum below the target, which the plain scan passes through.
\<close>

lemma prefix_sum_mono:
  "prefix_sum host_dists a t s0 = Inr s \<Longrightarrow> \<forall>k. t \<le> k \<and> k < a \<longrightarrow> 0 \<le> host_dists ! k
   \<Longrightarrow> s0 \<le> s"
proof (induction host_dists a t s0 rule: prefix_sum.induct)
  case (1 host_dists a t s0)
  show ?case
  proof (cases "t < a")
    case False
    with "1.prems"(1) show ?thesis
      by (subst (asm) prefix_sum.simps) simp
  next
    case True
    from "1.prems"(1) True obtain d where
      rd: "host_dists_at host_dists t = Inr d" and
      nxt: "prefix_sum host_dists a (t + 1) (s0 + d) = Inr s"
      by (subst (asm) prefix_sum.simps) (auto split: sum.splits)
    from rd have d: "d = host_dists ! t"
      by (auto simp: host_dists_at_def split: if_splits)
    from "1.prems"(2) True have "0 \<le> host_dists ! t" by simp
    moreover from "1.IH" [OF True rd nxt] "1.prems"(2) have "s0 + d \<le> s" by simp
    ultimately show ?thesis
      using d by simp
  qed
qed

lemma scan_forward_skip:
  "prefix_sum host_dists a t s0 = Inr s \<Longrightarrow> s < T \<Longrightarrow> t \<le> a \<Longrightarrow> a \<le> n
   \<Longrightarrow> \<forall>k. t \<le> k \<and> k < a \<longrightarrow> 0 \<le> host_dists ! k
   \<Longrightarrow> scan_forward host_dists n T t s0 = scan_forward host_dists n T a s"
proof (induction host_dists a t s0 rule: prefix_sum.induct)
  case (1 host_dists a t s0)
  show ?case
  proof (cases "t < a")
    case False
    with "1.prems"(1,3) show ?thesis
      by (subst (asm) prefix_sum.simps) simp
  next
    case True
    from "1.prems"(1) True obtain d where
      rd: "host_dists_at host_dists t = Inr d" and
      nxt: "prefix_sum host_dists a (t + 1) (s0 + d) = Inr s"
      by (subst (asm) prefix_sum.simps) (auto split: sum.splits)
    from prefix_sum_mono [OF "1.prems"(1) "1.prems"(5)] "1.prems"(2) have "s0 < T"
      by simp
    with True "1.prems"(4) rd
    have "scan_forward host_dists n T t s0 = scan_forward host_dists n T (t + 1) (s0 + d)"
      by (subst scan_forward.simps) simp
    also have "\<dots> = scan_forward host_dists n T a s"
      using "1.IH" [OF True rd nxt "1.prems"(2) _ "1.prems"(4)] True "1.prems"(5) by simp
    finally show ?thesis .
  qed
qed

lemma choose_j_forward_agrees:
  assumes nonneg: "\<forall>k < samples_size. 0 \<le> host_dists ! k"
    and approx: "nat \<lfloor>choice * of_nat samples_size\<rfloor> \<le> samples_size"
    and branch: "nat \<lfloor>choice * of_nat samples_size\<rfloor> < 100
         \<or> (\<exists>s. prefix_sum host_dists (nat \<lfloor>choice * of_nat samples_size\<rfloor>) 0 0 = Inr s
                 \<and> s < choice * dist_sum)"
  shows "choose_j host_dists samples_size dist_sum choice
           = naive_scan host_dists samples_size dist_sum choice"
proof (cases "nat \<lfloor>choice * of_nat samples_size\<rfloor> < 100")
  case True
  then show ?thesis
    by (simp add: choose_j_def naive_scan_def Let_def)
next
  case False
  with branch obtain s where
    s: "prefix_sum host_dists (nat \<lfloor>choice * of_nat samples_size\<rfloor>) 0 0 = Inr s"
      "s < choice * dist_sum"
    by blast
  from nonneg approx
  have below: "\<forall>k. 0 \<le> k \<and> k < nat \<lfloor>choice * of_nat samples_size\<rfloor> \<longrightarrow> 0 \<le> host_dists ! k"
    by simp
  from scan_forward_skip [OF s(1) s(2) _ approx below]
  have "scan_forward host_dists samples_size (choice * dist_sum) 0 0
        = scan_forward host_dists samples_size (choice * dist_sum)
            (nat \<lfloor>choice * of_nat samples_size\<rfloor>) s"
    by simp
  with False s show ?thesis
    by (simp add: choose_j_def naive_scan_def Let_def)
qed

section \<open>Device memory planning at concrete invocations\<close>

lemmas pipeline_defs =
  kmeans_cuda_def check_args_def UINT32_MAX_def setup_devices_def setup_devices_loop.simps
  plan_and_refine_def
  plan_samples_def plan_centroids_def plan_assignments_def plan_yinyang_def
  run_collaborators_def copy_result_def print_memory_stats_def call_collaborator_def
  CUMALLOC_def CUMALLOC_ONE_def CUMEMCPY_H2D_ASYNC_def FOR_ALL_DEVSI_def CUCH_def RETERR_def
  emplace_back_def initial_state_def yinyang_groups_of_def float_defs all_ok_def

text \<open>
  Claim C2: with \<open>yinyang_groups \<ge> 1\<close>, if
  \<open>yinyang_groups \<times> features_size + clusters_size + yinyang_groups \<le> samples_size\<close> then
  no group-centroid buffer is allocated and on every device it aliases that device's
  passed-flags buffer; otherwise there is exactly one group-centroid allocation per device.

  The code does not do so when the product leaves 32 bits. With \<open>clusters_size = 131076\<close>,
  fraction \<open>1/2\<close> (65538 groups), \<open>features_size = 65535\<close> and \<open>samples_size = 262148\<close> the
  sum of the claim is far above \<open>samples_size\<close>, but \<open>yyc_size\<close> is computed as
  \<open>65538 \<times> 65535 mod 2^32 = 65534\<close>, the test of the source succeeds, nothing is allocated
  and the group-centroid vector aliases the passed-flags vector.
\<close>

theorem group_centroids_alias_after_wrap:
  "yinyang_groups_of all_ok (Finite (1 / 2)) 131076 = 65538
   \<and> \<not> (65538 * 65535 + 131076 + 65538 \<le> (262148 :: nat))
   \<and> (case kmeans_cuda all_ok False (Finite 0) (Finite (1 / 2)) 262148 65535 131076 0 1 0 (- 1)
              (Caller 1) (Caller 2) (Caller 3) of
         (r, s) \<Rightarrow>
           r = kmcudaSuccess
           \<and> filter (is_malloc_of device_centroids_yy) (trace s) = []
           \<and> length (bufs s device_passed_yy) = 1
           \<and> bufs s device_centroids_yy
               = map (\<lambda>p. DevPtr (get p) True) (bufs s device_passed_yy))"
  by (simp add: pipeline_defs)

text \<open>
  Claim C6: when the input-location hint names a participating device, the sample buffer of
  that device aliases the caller's pointer and every other participating device gets an
  owned allocation of the sample matrix; when the hint is host memory every participating
  device gets an owned allocation filled by a host-to-device transfer.

  The code does not do the first part. With a hint \<open>device_ptrs \<ge> 0\<close> it pushes the
  caller's pointer once, outside any loop over the devices, and allocates nothing: with
  devices 0 and 1 and hint 0, \<open>device_samples\<close> has one entry for two devices, while
  \<open>device_centroids\<close>, planned by the loop a few lines below, has the alias for device 0
  and an owned allocation for device 1. With hint 1 the single entry, which the
  collaborators read as the buffer of device 0, is the pointer that lives on device 1.
\<close>

theorem samples_not_replicated:
  "setup_devices (set_device_ok all_ok) 3 = [0, 1]
   \<and> (case kmeans_cuda all_ok False (Finite 0) (Finite 0) 4 1 2 0 3 0 0 (Caller 1) (Caller 2) (Caller 3) of
         (r, s) \<Rightarrow>
           r = kmcudaSuccess
           \<and> bufs s device_samples = [DevPtr (Caller 1) True]
           \<and> filter (is_malloc_of device_samples) (trace s) = []
           \<and> bufs s device_centroids = [DevPtr (Caller 2) True, DevPtr (Cuda 0) False])
   \<and> (case kmeans_cuda all_ok False (Finite 0) (Finite 0) 4 1 2 0 3 0 1 (Caller 1) (Caller 2) (Caller 3) of
         (r, s) \<Rightarrow>
           r = kmcudaSuccess
           \<and> bufs s device_samples = [DevPtr (Caller 1) True]
           \<and> filter (is_malloc_of device_samples) (trace s) = []
           \<and> bufs s device_centroids = [DevPtr (Cuda 0) False, DevPtr (Caller 2) True])"
  by (simp add: pipeline_defs)

section \<open>Topology resolution\<close>

lemma and_one_bit0: "((w::32 word) AND 1 \<noteq> 0) = bit w 0"
  by (simp add: and_one_eq bit_0 mod_2_eq_odd)

lemma filter_upt_word_bits:
  fixes w :: "32 word"
  assumes "32 \<le> n"
  shows "filter (\<lambda>i. bit w i \<and> Q i) [0..<Suc n] = filter (\<lambda>i. bit w i \<and> Q i) [0..<n]"
proof -
  have "\<not> bit w n"
    using assms bit_imp_le_length [of w n] by auto
  then show ?thesis by simp
qed

lemma setup_devices_loop_eq:
  "32 \<le> n \<Longrightarrow>
   setup_devices_loop set_ok dev device devs =
     devs @ map (\<lambda>i. dev + i) (filter (\<lambda>i. bit device i \<and> set_ok (dev + i)) [0..<n])"
proof (induction set_ok dev device devs arbitrary: n rule: setup_devices_loop.induct)
  case (1 set_ok dev device devs)
  show ?case
  proof (cases "device = 0")
    case True
    then show ?thesis by (simp add: setup_devices_loop.simps)
  next
    case False
    let ?devs' = "if device AND 1 \<noteq> 0
                  then (let pushed = devs @ [dev] in if set_ok dev then pushed else butlast pushed)
                  else devs"
    have devs': "?devs' = devs @ (if bit device 0 \<and> set_ok dev then [dev] else [])"
      by (simp add: and_one_bit0 Let_def)
    have unfold: "setup_devices_loop set_ok dev device devs =
                  setup_devices_loop set_ok (dev + 1) (drop_bit 1 device) ?devs'"
      using False by (subst setup_devices_loop.simps) simp
    have ih: "setup_devices_loop set_ok (dev + 1) (drop_bit 1 device) ?devs' =
              ?devs' @ map (\<lambda>i. dev + 1 + i)
                 (filter (\<lambda>i. bit (drop_bit 1 device) i \<and> set_ok (dev + 1 + i)) [0..<n])"
      using "1.IH" [OF False "1.prems"] .
    have split: "[0..<Suc n] = 0 # map Suc [0..<n]"
      by (simp add: upt_conv_Cons map_Suc_upt del: upt_Suc)
    have "filter (\<lambda>i. bit device i \<and> set_ok (dev + i)) [0..<n] =
          filter (\<lambda>i. bit device i \<and> set_ok (dev + i)) [0..<Suc n]"
      using filter_upt_word_bits [OF "1.prems", of device "\<lambda>i. set_ok (dev + i)"] by simp
    also have "\<dots> = (if bit device 0 \<and> set_ok dev then [0] else []) @
                    map Suc (filter (\<lambda>i. bit device (Suc i) \<and> set_ok (dev + Suc i)) [0..<n])"
      unfolding split by (simp add: filter_map comp_def)
    finally have rhs: "filter (\<lambda>i. bit device i \<and> set_ok (dev + i)) [0..<n] =
                    (if bit device 0 \<and> set_ok dev then [0] else []) @
                    map Suc (filter (\<lambda>i. bit device (Suc i) \<and> set_ok (dev + Suc i)) [0..<n])" .
    have "?devs' @ map (\<lambda>i. dev + 1 + i)
                 (filter (\<lambda>i. bit (drop_bit 1 device) i \<and> set_ok (dev + 1 + i)) [0..<n]) =
          devs @ map (\<lambda>i. dev + i)
                 (filter (\<lambda>i. bit device i \<and> set_ok (dev + i)) [0..<n])"
      unfolding devs' rhs
      by (simp add: bit_drop_bit_eq comp_def)
    with unfold ih show ?thesis
      by (simp only:)
  qed
qed

lemma setup_devices_eq_upto:
  "32 \<le> n \<Longrightarrow>
   setup_devices set_ok device = filter (\<lambda>dev. bit device dev \<and> set_ok dev) [0..<n]"
  unfolding setup_devices_def
  using setup_devices_loop_eq [of n set_ok 0 device "[]"] by simp

lemma setup_devices_eq:
  "setup_devices set_ok device = filter (\<lambda>dev. bit device dev \<and> set_ok dev) [0..<32]"
  by (rule setup_devices_eq_upto) simp

text \<open>
  Claim C9: topology resolution keeps exactly the devices whose bit is set in the selector
  and that activate, in increasing order; and when the arguments are valid but no selected
  device activates, \<open>kmeans_cuda\<close> returns \<open>kmcudaNoSuchDevice\<close> in the initial state,
  that is, without an allocation, a transfer or a collaborator call.
\<close>

theorem topology_resolution:
  "setup_devices (set_device_ok env) device
     = filter (\<lambda>dev. bit device dev \<and> set_device_ok env dev) [0..<32]
   \<and> (check_args env tolerance yinyang_t samples_size features_size
          clusters_size device samples centroids assignments = kmcudaSuccess
        \<and> setup_devices (set_device_ok env) device = []
      \<longrightarrow> kmeans_cuda env kmpp tolerance yinyang_t samples_size features_size clusters_size
            seed device verbosity device_ptrs samples centroids assignments
          = (kmcudaNoSuchDevice, initial_state))"
proof (intro conjI impI)
  show "setup_devices (set_device_ok env) device
          = filter (\<lambda>dev. bit device dev \<and> set_device_ok env dev) [0..<32]"
    by (rule setup_devices_eq)
next
  assume "check_args env tolerance yinyang_t samples_size features_size
            clusters_size device samples centroids assignments = kmcudaSuccess
          \<and> setup_devices (set_device_ok env) device = []"
  then show "kmeans_cuda env kmpp tolerance yinyang_t samples_size features_size clusters_size
               seed device verbosity device_ptrs samples centroids assignments
             = (kmcudaNoSuchDevice, initial_state)"
    by (simp add: kmeans_cuda_def)
qed

text \<open>
  The theorem where device 0 cannot be activated: selector \<open>3\<close> resolves to device 1
  alone, and selector \<open>1\<close> resolves to no device at all.
\<close>

theorem topology_resolution_witness:
  "setup_devices (set_device_ok device0_dead) 3 = [1]
   \<and> check_args device0_dead (Finite 0) (Finite 0) 4 1 2 1 (Caller 1) (Caller 2) (Caller 3)
       = kmcudaSuccess
   \<and> setup_devices (set_device_ok device0_dead) 1 = []
   \<and> kmeans_cuda device0_dead False (Finite 0) (Finite 0) 4 1 2 0 1 0 (- 1) (Caller 1) (Caller 2) (Caller 3)
       = (kmcudaNoSuchDevice, initial_state)"
proof -
  have devs3: "setup_devices (set_device_ok device0_dead) 3 = [1]"
    by (simp add: device0_dead_def all_ok_def setup_devices_def setup_devices_loop.simps)
  have devs1: "setup_devices (set_device_ok device0_dead) 1 = []"
    by (simp add: device0_dead_def all_ok_def setup_devices_def setup_devices_loop.simps)
  have args: "check_args device0_dead (Finite 0) (Finite 0) 4 1 2 1 (Caller 1) (Caller 2) (Caller 3)
                = kmcudaSuccess"
    by (simp add: device0_dead_def all_ok_def check_args_def UINT32_MAX_def Let_def)
  from topology_resolution [of device0_dead 1 "Finite 0" "Finite 0" 4 1 2 "Caller 1" "Caller 2" "Caller 3"
          False 0 0 "- 1"] args devs1
  have "kmeans_cuda device0_dead False (Finite 0) (Finite 0) 4 1 2 0 1 0 (- 1) (Caller 1) (Caller 2) (Caller 3)
          = (kmcudaNoSuchDevice, initial_state)"
    by blast
  with devs3 devs1 args show ?thesis
    by blast
qed

section \<open>Frame conditions of the pipeline\<close>

text \<open>
  The pipeline is a chain of \<open>RETERR\<close> over loops of \<open>FOR_ALL_DEVS\<close>. A frame condition
  proved of each primitive carries over to the chain.
\<close>

lemma touchesI:
  assumes "\<And>s. \<exists>es. trace (snd (f s)) = trace s @ es \<and> list_all P es"
    and "\<And>s b. b \<notin> B \<Longrightarrow> bufs (snd (f s)) b = bufs s b"
  shows "touches P B f"
  using assms unfolding touches_def by blast

lemma touches_trace:
  "touches P B f \<Longrightarrow> \<exists>es. trace (snd (f s)) = trace s @ es \<and> list_all P es"
  unfolding touches_def by blast

lemma touches_bufs: "touches P B f \<Longrightarrow> b \<notin> B \<Longrightarrow> bufs (snd (f s)) b = bufs s b"
  unfolding touches_def by blast

lemma touches_weaken:
  assumes "touches P B f" "\<And>e. P e \<Longrightarrow> P' e" "B \<subseteq> B'"
  shows "touches P' B' f"
proof (rule touchesI)
  fix s
  from touches_trace [OF assms(1), of s]
  obtain es where es: "trace (snd (f s)) = trace s @ es" "list_all P es" by blast
  from es(2) assms(2) have "list_all P' es"
    by (simp add: list_all_iff)
  with es(1) show "\<exists>es. trace (snd (f s)) = trace s @ es \<and> list_all P' es" by blast
next
  fix s b
  assume "b \<notin> B'"
  with assms(3) have "b \<notin> B" by blast
  then show "bufs (snd (f s)) b = bufs s b"
    by (rule touches_bufs [OF assms(1)])
qed

lemma touches_return: "touches P B (\<lambda>s. (r, s))"
  by (rule touchesI) simp_all

lemma touches_RETERR:
  assumes f: "touches P B f" and g: "touches P B g"
  shows "touches P B (RETERR f g)"
proof (rule touchesI)
  fix s
  obtain r s' where fs: "f s = (r, s')" by (cases "f s")
  from touches_trace [OF f, of s] fs
  obtain es where es: "trace s' = trace s @ es" "list_all P es" by auto
  show "\<exists>es. trace (snd (RETERR f g s)) = trace s @ es \<and> list_all P es"
  proof (cases "r = kmcudaSuccess")
    case True
    from touches_trace [OF g, of s']
    obtain es' where es': "trace (snd (g s')) = trace s' @ es'" "list_all P es'" by blast
    from es es' have "trace (snd (g s')) = trace s @ (es @ es') \<and> list_all P (es @ es')"
      by simp
    moreover have "RETERR f g s = g s'"
      using True fs by (simp add: RETERR_def)
    ultimately show ?thesis
      by metis
  next
    case False
    with fs es show ?thesis
      unfolding RETERR_def by auto
  qed
next
  fix s b
  assume b: "b \<notin> B"
  obtain r s' where fs: "f s = (r, s')" by (cases "f s")
  from touches_bufs [OF f b, of s] fs have 1: "bufs s' b = bufs s b" by simp
  from touches_bufs [OF g b, of s'] have 2: "bufs (snd (g s')) b = bufs s' b" .
  from fs 1 2 show "bufs (snd (RETERR f g s)) b = bufs s b"
    unfolding RETERR_def by auto
qed

lemma touches_FOR_ALL_DEVS:
  assumes "\<And>dev. touches P B (body dev)"
  shows "touches P B (FOR_ALL_DEVS body devs)"
proof (induction devs)
  case Nil
  have "FOR_ALL_DEVS body [] = (\<lambda>s. (kmcudaSuccess, s))"
    by (rule ext) simp
  then show ?case by (simp only: touches_return)
next
  case (Cons dev devs)
  have "FOR_ALL_DEVS body (dev # devs) = RETERR (body dev) (FOR_ALL_DEVS body devs)"
    by (rule ext) (simp add: RETERR_def)
  with touches_RETERR [OF assms [of dev] Cons.IH] show ?case
    by (simp only:)
qed

lemma touches_CUCH: "P cuda_call \<Longrightarrow> touches P B (CUCH env cuda_call ret)"
  by (rule touchesI) (simp_all add: CUCH_def)

lemma touches_call_collaborator: "P call \<Longrightarrow> touches P B (call_collaborator env call)"
  by (rule touchesI) (simp_all add: call_collaborator_def)

lemma touches_CUMALLOC_ONE:
  "P (cudaMalloc dest dev n) \<Longrightarrow> dest \<in> B \<Longrightarrow> touches P B (CUMALLOC_ONE env dest n dev)"
  by (rule touchesI) (auto simp: CUMALLOC_ONE_def CUCH_def emplace_back_def)

lemma touches_CUMALLOC:
  "(\<And>dev. P (cudaMalloc dest dev n)) \<Longrightarrow> dest \<in> B \<Longrightarrow> touches P B (CUMALLOC env dest n devs)"
  unfolding CUMALLOC_def by (rule touches_FOR_ALL_DEVS) (rule touches_CUMALLOC_ONE)

lemma touches_CUMEMCPY_H2D_ASYNC:
  "(\<And>devi dst. P (cudaMemcpyAsync_H2D devi dst src n))
   \<Longrightarrow> touches P B (CUMEMCPY_H2D_ASYNC env b src n devs)"
  unfolding CUMEMCPY_H2D_ASYNC_def FOR_ALL_DEVSI_def
  by (rule touches_FOR_ALL_DEVS) (rule touchesI, simp_all add: CUCH_def)

lemma keeps_flagI: "(\<And>s. must_copy_result (snd (f s)) = must_copy_result s) \<Longrightarrow> keeps_flag f"
  unfolding keeps_flag_def by blast

lemma keeps_flagD: "keeps_flag f \<Longrightarrow> must_copy_result (snd (f s)) = must_copy_result s"
  unfolding keeps_flag_def by blast

lemma keeps_flag_return: "keeps_flag (\<lambda>s. (r, s))"
  by (rule keeps_flagI) simp

lemma keeps_flag_RETERR:
  assumes f: "keeps_flag f" and g: "keeps_flag g"
  shows "keeps_flag (RETERR f g)"
proof (rule keeps_flagI)
  fix s
  obtain r s' where fs: "f s = (r, s')" by (cases "f s")
  from keeps_flagD [OF f, of s] fs have 1: "must_copy_result s' = must_copy_result s" by simp
  from keeps_flagD [OF g, of s'] have 2: "must_copy_result (snd (g s')) = must_copy_result s'" .
  from fs 1 2 show "must_copy_result (snd (RETERR f g s)) = must_copy_result s"
    unfolding RETERR_def by auto
qed

lemma keeps_flag_FOR_ALL_DEVS:
  assumes "\<And>dev. keeps_flag (body dev)"
  shows "keeps_flag (FOR_ALL_DEVS body devs)"
proof (induction devs)
  case Nil
  have "FOR_ALL_DEVS body [] = (\<lambda>s. (kmcudaSuccess, s))"
    by (rule ext) simp
  then show ?case by (simp only: keeps_flag_return)
next
  case (Cons dev devs)
  have "FOR_ALL_DEVS body (dev # devs) = RETERR (body dev) (FOR_ALL_DEVS body devs)"
    by (rule ext) (simp add: RETERR_def)
  with keeps_flag_RETERR [OF assms [of dev] Cons.IH] show ?case
    by (simp only:)
qed

lemma keeps_flag_CUCH: "keeps_flag (CUCH env cuda_call ret)"
  by (rule keeps_flagI) (simp add: CUCH_def)

lemma keeps_flag_call_collaborator: "keeps_flag (call_collaborator env call)"
  by (rule keeps_flagI) (simp add: call_collaborator_def)

lemma keeps_flag_CUMALLOC_ONE: "keeps_flag (CUMALLOC_ONE env dest n dev)"
  by (rule keeps_flagI) (simp add: CUMALLOC_ONE_def CUCH_def emplace_back_def)

lemma keeps_flag_CUMALLOC: "keeps_flag (CUMALLOC env dest n devs)"
  unfolding CUMALLOC_def by (rule keeps_flag_FOR_ALL_DEVS) (rule keeps_flag_CUMALLOC_ONE)

lemma keeps_flag_CUMEMCPY_H2D_ASYNC: "keeps_flag (CUMEMCPY_H2D_ASYNC env b src n devs)"
  unfolding CUMEMCPY_H2D_ASYNC_def FOR_ALL_DEVSI_def
  by (rule keeps_flag_FOR_ALL_DEVS) (rule keeps_flagI, simp add: CUCH_def)

text \<open>The blocks of the pipeline.\<close>

lemma touches_plan_samples:
  assumes "\<And>dev. P (cudaMalloc device_samples dev n)"
    and "\<And>devi dst. P (cudaMemcpyAsync_H2D devi dst samples n)"
    and "device_samples \<in> B"
  shows "touches P B (plan_samples env n device_ptrs samples devs)"
proof (cases "device_ptrs < 0")
  case True
  then show ?thesis
    unfolding plan_samples_def
    by (simp add: touches_RETERR touches_CUMALLOC touches_CUMEMCPY_H2D_ASYNC assms)
next
  case False
  have "touches P B (\<lambda>s. (kmcudaSuccess, emplace_back device_samples (DevPtr samples True) s))"
    using assms(3) by (intro touchesI) (auto simp: emplace_back_def)
  with False show ?thesis
    unfolding plan_samples_def by simp
qed

lemma keeps_flag_plan_samples: "keeps_flag (plan_samples env n device_ptrs samples devs)"
proof (cases "device_ptrs < 0")
  case True
  then show ?thesis
    unfolding plan_samples_def
    by (simp add: keeps_flag_RETERR keeps_flag_CUMALLOC keeps_flag_CUMEMCPY_H2D_ASYNC)
next
  case False
  have "keeps_flag (\<lambda>s. (kmcudaSuccess, emplace_back device_samples (DevPtr samples True) s))"
    by (rule keeps_flagI) (simp add: emplace_back_def)
  with False show ?thesis
    unfolding plan_samples_def by simp
qed

lemma touches_plan_centroids:
  assumes "\<And>dev. P (cudaMalloc device_centroids dev n)" and "device_centroids \<in> B"
  shows "touches P B (plan_centroids env n device_ptrs centroids devs)"
  unfolding plan_centroids_def
proof (rule touches_FOR_ALL_DEVS)
  fix dev
  show "touches P B
          (\<lambda>s. if int dev = device_ptrs
                then (kmcudaSuccess,
                      (emplace_back device_centroids (DevPtr centroids True) s)
                        \<lparr>must_copy_result := False\<rparr>)
                else CUMALLOC_ONE env device_centroids n dev s)"
  proof (cases "int dev = device_ptrs")
    case True
    then show ?thesis
      using assms(2) by (intro touchesI) (auto simp: emplace_back_def)
  next
    case False
    then show ?thesis
      using touches_CUMALLOC_ONE [of P device_centroids dev n B env] assms by simp
  qed
qed

lemma touches_plan_assignments:
  assumes "\<And>dev. P (cudaMalloc device_assignments dev (unat samples_size))"
    and "device_assignments \<in> B"
  shows "touches P B (plan_assignments env samples_size device_ptrs assignments devs)"
  unfolding plan_assignments_def
proof (rule touches_FOR_ALL_DEVS)
  fix dev
  show "touches P B
          (\<lambda>s. if int dev = device_ptrs
                then (kmcudaSuccess,
                      emplace_back device_assignments (DevPtr assignments True) s)
                else CUMALLOC_ONE env device_assignments (unat samples_size) dev s)"
  proof (cases "int dev = device_ptrs")
    case True
    then show ?thesis
      using assms(2) by (intro touchesI) (auto simp: emplace_back_def)
  next
    case False
    then show ?thesis
      using touches_CUMALLOC_ONE [of P device_assignments dev "unat samples_size" B env] assms
      by simp
  qed
qed

lemma keeps_flag_plan_assignments:
  "keeps_flag (plan_assignments env samples_size device_ptrs assignments devs)"
  unfolding plan_assignments_def
proof (rule keeps_flag_FOR_ALL_DEVS)
  fix dev
  show "keeps_flag
          (\<lambda>s. if int dev = device_ptrs
                then (kmcudaSuccess,
                      emplace_back device_assignments (DevPtr assignments True) s)
                else CUMALLOC_ONE env device_assignments (unat samples_size) dev s)"
  proof (cases "int dev = device_ptrs")
    case True
    then show ?thesis
      by (intro keeps_flagI) (simp add: emplace_back_def)
  next
    case False
    then show ?thesis
      using keeps_flag_CUMALLOC_ONE [of env device_assignments "unat samples_size" dev] by simp
  qed
qed

lemma touches_run_collaborators:
  assumes "P cudaMemGetInfo" "P (kmeans_cuda_setup g)" "P kmeans_init_centroids"
    "P (kmeans_cuda_yy g)"
  shows "touches P B (run_collaborators env verbosity g)"
  unfolding run_collaborators_def print_memory_stats_def
  by (intro touches_RETERR touches_call_collaborator assms)
     (simp add: touches_CUCH touches_return assms)

lemma keeps_flag_run_collaborators: "keeps_flag (run_collaborators env verbosity g)"
  unfolding run_collaborators_def print_memory_stats_def
  by (intro keeps_flag_RETERR keeps_flag_call_collaborator)
     (simp add: keeps_flag_CUCH keeps_flag_return)

lemma plan_yinyang_no_groups:
  "plan_yinyang env samples_size features_size clusters_size centroids_size 0 devs
     = (\<lambda>s. (kmcudaSuccess, s))"
  by (simp add: plan_yinyang_def)

lemma touches_plan_yinyang:
  assumes P: "\<And>b dev n. b \<in> set scratch_buffers \<Longrightarrow> P (cudaMalloc b dev n)"
    and B: "set scratch_buffers \<subseteq> B"
  shows "touches P B
           (plan_yinyang env samples_size features_size clusters_size centroids_size g devs)"
proof (cases "g \<ge> 1")
  case False
  then show ?thesis
    by (simp add: plan_yinyang_def touches_return)
next
  case True
  have mem: "device_assignments_yy \<in> B" "device_bounds_yy \<in> B" "device_drifts_yy \<in> B"
    "device_passed_yy \<in> B" "device_centroids_yy \<in> B"
    using B by (auto simp: scratch_buffers_def)
  have ev: "\<And>dev n. P (cudaMalloc device_assignments_yy dev n)"
    "\<And>dev n. P (cudaMalloc device_bounds_yy dev n)"
    "\<And>dev n. P (cudaMalloc device_drifts_yy dev n)"
    "\<And>dev n. P (cudaMalloc device_passed_yy dev n)"
    "\<And>dev n. P (cudaMalloc device_centroids_yy dev n)"
    by (rule P, simp add: scratch_buffers_def)+
  have aliasing: "touches P B
         (\<lambda>s. (kmcudaSuccess,
               s\<lparr>bufs := (bufs s)(device_centroids_yy :=
                      bufs s device_centroids_yy
                      @ map (\<lambda>p. DevPtr (get p) True) (bufs s device_passed_yy))\<rparr>))"
    using mem(5) by (intro touchesI) auto
  have last: "touches P B
         (let yyc_size = unat (g * ucast features_size)
          in if yyc_size + unat (clusters_size + g) \<le> unat samples_size
             then (\<lambda>s. (kmcudaSuccess,
                         s\<lparr>bufs := (bufs s)(device_centroids_yy :=
                                bufs s device_centroids_yy
                                @ map (\<lambda>p. DevPtr (get p) True) (bufs s device_passed_yy))\<rparr>))
             else CUMALLOC env device_centroids_yy yyc_size devs)"
    using aliasing touches_CUMALLOC [of P device_centroids_yy _ B env devs] ev(5) mem(5)
    by (simp add: Let_def)
  from True show ?thesis
    unfolding plan_yinyang_def
    by (simp only: if_True)
       (intro touches_RETERR touches_CUMALLOC last ev mem)
qed

lemma keeps_flag_plan_yinyang:
  "keeps_flag (plan_yinyang env samples_size features_size clusters_size centroids_size g devs)"
proof (cases "g \<ge> 1")
  case False
  then show ?thesis
    by (simp add: plan_yinyang_def keeps_flag_return)
next
  case True
  have aliasing: "keeps_flag
         (\<lambda>s. (kmcudaSuccess,
               s\<lparr>bufs := (bufs s)(device_centroids_yy :=
                      bufs s device_centroids_yy
                      @ map (\<lambda>p. DevPtr (get p) True) (bufs s device_passed_yy))\<rparr>))"
    by (intro keeps_flagI) simp
  have last: "keeps_flag
         (let yyc_size = unat (g * ucast features_size)
          in if yyc_size + unat (clusters_size + g) \<le> unat samples_size
             then (\<lambda>s. (kmcudaSuccess,
                         s\<lparr>bufs := (bufs s)(device_centroids_yy :=
                                bufs s device_centroids_yy
                                @ map (\<lambda>p. DevPtr (get p) True) (bufs s device_passed_yy))\<rparr>))
             else CUMALLOC env device_centroids_yy yyc_size devs)"
    using aliasing keeps_flag_CUMALLOC [of env device_centroids_yy _ devs]
    by (simp add: Let_def)
  from True show ?thesis
    unfolding plan_yinyang_def
    by (simp only: if_True)
       (intro keeps_flag_RETERR keeps_flag_CUMALLOC last)
qed

lemma touches_copy_result:
  assumes "\<And>dst src n. P (cudaMemcpy_D2H dst src n)"
    and "\<And>dst dst_dev src src_dev n. P (cudaMemcpyPeer dst dst_dev src src_dev n)"
  shows "touches P B
           (copy_result env samples_size centroids_size device_ptrs centroids assignments devs)"
  by (rule touchesI) (auto simp: copy_result_def RETERR_def CUCH_def assms)

text \<open>What holds of the final state when every block obeys the same frame conditions.\<close>

lemma kmeans_cuda_frame:
  assumes plan: "\<And>devs. touches P B
           (plan_and_refine env yinyang_t samples_size features_size clusters_size verbosity
              device_ptrs samples centroids assignments devs)"
    and copy: "\<And>devs. touches P B
           (copy_result env samples_size (unat clusters_size * unat features_size) device_ptrs
              centroids assignments devs)"
  shows "list_all P (trace (snd (kmeans_cuda env kmpp tolerance yinyang_t samples_size
            features_size clusters_size seed device verbosity device_ptrs samples centroids
            assignments)))
         \<and> (\<forall>b. b \<notin> B \<longrightarrow> bufs (snd (kmeans_cuda env kmpp tolerance yinyang_t samples_size
            features_size clusters_size seed device verbosity device_ptrs samples centroids
            assignments)) b = [])"
proof -
  let ?devs = "setup_devices (set_device_ok env) device"
  let ?run = "RETERR
      (plan_and_refine env yinyang_t samples_size features_size clusters_size verbosity
         device_ptrs samples centroids assignments ?devs)
      (copy_result env samples_size (unat clusters_size * unat features_size) device_ptrs
         centroids assignments ?devs)"
  have run: "touches P B ?run"
    by (rule touches_RETERR [OF plan copy])
  from touches_trace [OF run, of initial_state]
  have tr: "list_all P (trace (snd (?run initial_state)))"
    by (auto simp: initial_state_def)
  have bf: "\<forall>b. b \<notin> B \<longrightarrow> bufs (snd (?run initial_state)) b = []"
    using touches_bufs [OF run, of _ initial_state] by (simp add: initial_state_def)
  have init: "list_all P (trace initial_state) \<and> (\<forall>b. b \<notin> B \<longrightarrow> bufs initial_state b = [])"
    by (simp add: initial_state_def)
  show ?thesis
    using tr bf init unfolding kmeans_cuda_def Let_def
    by (simp only: split: if_split) simp
qed

section \<open>The scratch state of the accelerated variant\<close>

lemma plan_and_refine_no_groups:
  assumes "yinyang_groups_of env yinyang_t clusters_size = 0"
  shows "touches (\<lambda>e. \<not> is_scratch_malloc e \<and> (group_count e = None \<or> group_count e = Some 0))
           (- set scratch_buffers)
           (plan_and_refine env yinyang_t samples_size features_size clusters_size verbosity
              device_ptrs samples centroids assignments devs)"
  unfolding plan_and_refine_def Let_def assms plan_yinyang_no_groups
  by (intro touches_RETERR touches_plan_samples touches_plan_centroids touches_plan_assignments
        touches_CUMALLOC touches_return touches_run_collaborators)
     (simp_all add: scratch_buffers_def)

text \<open>
  Claim C10, as amended. The scratch state of the accelerated variant is created only when
  \<open>yinyang_groups\<close> is at least \<open>1\<close>, where \<open>yinyang_groups\<close> is what the source
  computes: \<open>clusters_size\<close> converted to \<open>float\<close>, multiplied by \<open>yinyang_t\<close> in single
  precision, and truncated to \<open>uint32_t\<close>. Whenever that number is below \<open>1\<close>, and in
  particular whenever the accelerated fraction is \<open>0\<close>, an invocation, however it ends,
  has allocated none of the five scratch buffers (group assignments, bounds, drifts, passed
  flags, group centroids), its five scratch vectors are empty, and every call of the setup
  and of the refinement collaborator it has made carries the group count \<open>0\<close>.
\<close>

theorem no_scratch_without_groups:
  assumes "yinyang_t = Finite 0 \<or> yinyang_groups_of env yinyang_t clusters_size < 1"
  shows "list_all (\<lambda>e. \<not> is_scratch_malloc e \<and> (group_count e = None \<or> group_count e = Some 0))
           (trace (snd (kmeans_cuda env kmpp tolerance yinyang_t samples_size features_size
              clusters_size seed device verbosity device_ptrs samples centroids assignments)))
         \<and> list_all (\<lambda>b. bufs (snd (kmeans_cuda env kmpp tolerance yinyang_t samples_size
              features_size clusters_size seed device verbosity device_ptrs samples centroids
              assignments)) b = [])
             scratch_buffers"
proof -
  let ?P = "\<lambda>e. \<not> is_scratch_malloc e \<and> (group_count e = None \<or> group_count e = Some 0)"
  from assms have groups: "yinyang_groups_of env yinyang_t clusters_size = 0"
  proof
    assume "yinyang_t = Finite 0"
    then show ?thesis
      by (simp only: yinyang_groups_of_fraction_zero)
  next
    assume "yinyang_groups_of env yinyang_t clusters_size < 1"
    then show ?thesis
      by (simp add: word_less_1)
  qed
  have copy: "\<And>devs. touches ?P (- set scratch_buffers)
           (copy_result env samples_size (unat clusters_size * unat features_size) device_ptrs
              centroids assignments devs)"
    by (rule touches_copy_result) simp_all
  from kmeans_cuda_frame [of ?P "- set scratch_buffers" env yinyang_t samples_size features_size
      clusters_size verbosity device_ptrs samples centroids assignments kmpp tolerance seed device,
      OF plan_and_refine_no_groups [OF groups] copy]
  show ?thesis
    by (simp add: list_all_iff)
qed

text \<open>
  The theorem at a successful run on one device with fraction \<open>0\<close>: the refinement
  collaborator is called, with group count \<open>0\<close>.
\<close>

theorem no_scratch_without_groups_witness:
  "(Finite 0 = Finite 0 \<or> yinyang_groups_of all_ok (Finite 0) 2 < 1)
   \<and> fst (kmeans_cuda all_ok False (Finite 0) (Finite 0) 4 1 2 0 1 0 (- 1)
            (Caller 1) (Caller 2) (Caller 3))
       = kmcudaSuccess
   \<and> kmeans_cuda_yy 0
       \<in> set (trace (snd (kmeans_cuda all_ok False (Finite 0) (Finite 0) 4 1 2 0 1 0 (- 1)
                             (Caller 1) (Caller 2) (Caller 3))))
   \<and> list_all (\<lambda>e. \<not> is_scratch_malloc e \<and> (group_count e = None \<or> group_count e = Some 0))
        (trace (snd (kmeans_cuda all_ok False (Finite 0) (Finite 0) 4 1 2 0 1 0 (- 1)
                       (Caller 1) (Caller 2) (Caller 3))))
   \<and> list_all (\<lambda>b. bufs (snd (kmeans_cuda all_ok False (Finite 0) (Finite 0) 4 1 2 0 1 0 (- 1)
                                 (Caller 1) (Caller 2) (Caller 3))) b = [])
        scratch_buffers"
proof -
  have hyp: "Finite 0 = Finite 0 \<or> yinyang_groups_of all_ok (Finite 0) 2 < 1"
    by simp
  have run: "fst (kmeans_cuda all_ok False (Finite 0) (Finite 0) 4 1 2 0 1 0 (- 1)
                    (Caller 1) (Caller 2) (Caller 3))
       = kmcudaSuccess
   \<and> kmeans_cuda_yy 0
       \<in> set (trace (snd (kmeans_cuda all_ok False (Finite 0) (Finite 0) 4 1 2 0 1 0 (- 1)
                             (Caller 1) (Caller 2) (Caller 3))))"
    by (simp add: pipeline_defs)
  from hyp run
    no_scratch_without_groups [OF hyp, of False "Finite 0" 4 1 0 1 0 "- 1" "Caller 1" "Caller 2"
      "Caller 3"]
  show ?thesis
    by blast
qed

text \<open>
  The claim as it was stated, with the floor of the exact product, fails: for the fraction
  \<open>9256395 / 2^28\<close> and 29 clusters the exact product is \<open>1 - 2^(-28)\<close>, whose floor is
  \<open>0\<close>, but the single-precision product is \<open>1\<close>; the run allocates scratch buffers and
  calls the refinement collaborator with group count \<open>1\<close>.
\<close>

theorem exact_floor_counterexample:
  "\<lfloor>(9256395 / 268435456 :: rat) * of_nat (unat (29 :: 32 word))\<rfloor> < 1
   \<and> yinyang_groups_of all_ok (Finite (9256395 / 268435456)) 29 = 1
   \<and> fst (kmeans_cuda all_ok False (Finite 0) (Finite (9256395 / 268435456)) 64 1 29 0 1 0
            (- 1) (Caller 5) (Caller 6) (Caller 7))
       = kmcudaSuccess
   \<and> list_ex is_scratch_malloc
        (trace (snd (kmeans_cuda all_ok False (Finite 0) (Finite (9256395 / 268435456)) 64 1 29
                       0 1 0 (- 1) (Caller 5) (Caller 6) (Caller 7))))
   \<and> kmeans_cuda_yy 1
       \<in> set (trace (snd (kmeans_cuda all_ok False (Finite 0) (Finite (9256395 / 268435456))
                             64 1 29 0 1 0 (- 1) (Caller 5) (Caller 6) (Caller 7))))"
  by (simp add: pipeline_defs scratch_buffers_def)

section \<open>Output buffers and the copy-out\<close>

lemma RETERR_success:
  "RETERR f g s = (kmcudaSuccess, s') \<longleftrightarrow>
     (\<exists>t. f s = (kmcudaSuccess, t) \<and> g t = (kmcudaSuccess, s'))"
  by (cases "f s") (auto simp: RETERR_def)

lemma FOR_ALL_DEVS_Cons_success:
  "FOR_ALL_DEVS body (dev # devs) s = (kmcudaSuccess, s') \<longleftrightarrow>
     (\<exists>t. body dev s = (kmcudaSuccess, t) \<and> FOR_ALL_DEVS body devs t = (kmcudaSuccess, s'))"
  by (cases "body dev s") auto

lemma CUMALLOC_ONE_success:
  assumes "CUMALLOC_ONE env dest n dev s = (kmcudaSuccess, t)"
  shows "bufs t dest = bufs s dest @ [DevPtr (Cuda (length (trace s))) False]"
    and "must_copy_result t = must_copy_result s"
  using assms
  by (auto simp: CUMALLOC_ONE_def CUCH_def emplace_back_def split: if_splits)

lemma plan_centroids_success:
  assumes "plan_centroids env n device_ptrs centroids devs s = (kmcudaSuccess, s')"
  shows "map alias_of (bufs s' device_centroids) =
           map alias_of (bufs s device_centroids)
           @ map (\<lambda>dev. if int dev = device_ptrs then Some centroids else None) devs
         \<and> must_copy_result s' = (must_copy_result s \<and> device_ptrs \<notin> int ` set devs)"
  using assms
proof (induction devs arbitrary: s)
  case Nil
  then show ?case by (simp add: plan_centroids_def)
next
  case (Cons dev devs)
  let ?body = "\<lambda>dev s. if int dev = device_ptrs
                 then (kmcudaSuccess,
                       (emplace_back device_centroids (DevPtr centroids True) s)
                         \<lparr>must_copy_result := False\<rparr>)
                 else CUMALLOC_ONE env device_centroids n dev s"
  from Cons.prems obtain t where
    step: "?body dev s = (kmcudaSuccess, t)" and
    rest: "plan_centroids env n device_ptrs centroids devs t = (kmcudaSuccess, s')"
    unfolding plan_centroids_def FOR_ALL_DEVS_Cons_success by blast
  have one: "map alias_of (bufs t device_centroids) =
               map alias_of (bufs s device_centroids)
               @ [if int dev = device_ptrs then Some centroids else None]
             \<and> must_copy_result t = (must_copy_result s \<and> int dev \<noteq> device_ptrs)"
  proof (cases "int dev = device_ptrs")
    case True
    with step show ?thesis
      by (auto simp: emplace_back_def alias_of_def)
  next
    case False
    with step have "CUMALLOC_ONE env device_centroids n dev s = (kmcudaSuccess, t)"
      by simp
    from CUMALLOC_ONE_success [OF this] False show ?thesis
      by (simp add: alias_of_def)
  qed
  from Cons.IH [OF rest] one show ?case
    by auto
qed

lemma plan_assignments_success:
  assumes "plan_assignments env samples_size device_ptrs assignments devs s = (kmcudaSuccess, s')"
  shows "map alias_of (bufs s' device_assignments) =
           map alias_of (bufs s device_assignments)
           @ map (\<lambda>dev. if int dev = device_ptrs then Some assignments else None) devs"
  using assms
proof (induction devs arbitrary: s)
  case Nil
  then show ?case by (simp add: plan_assignments_def)
next
  case (Cons dev devs)
  let ?body = "\<lambda>dev s. if int dev = device_ptrs
                 then (kmcudaSuccess,
                       emplace_back device_assignments (DevPtr assignments True) s)
                 else CUMALLOC_ONE env device_assignments (unat samples_size) dev s"
  from Cons.prems obtain t where
    step: "?body dev s = (kmcudaSuccess, t)" and
    rest: "plan_assignments env samples_size device_ptrs assignments devs t = (kmcudaSuccess, s')"
    unfolding plan_assignments_def FOR_ALL_DEVS_Cons_success by blast
  have one: "map alias_of (bufs t device_assignments) =
               map alias_of (bufs s device_assignments)
               @ [if int dev = device_ptrs then Some assignments else None]"
  proof (cases "int dev = device_ptrs")
    case True
    with step show ?thesis
      by (auto simp: emplace_back_def alias_of_def)
  next
    case False
    with step have "CUMALLOC_ONE env device_assignments (unat samples_size) dev s
                      = (kmcudaSuccess, t)"
      by simp
    from CUMALLOC_ONE_success(1) [OF this] False show ?thesis
      by (simp add: alias_of_def)
  qed
  from Cons.IH [OF rest] one show ?case
    by auto
qed

lemma plan_and_refine_success:
  assumes "plan_and_refine env yinyang_t samples_size features_size clusters_size verbosity
             device_ptrs samples centroids assignments devs initial_state = (kmcudaSuccess, s1)"
  shows "map alias_of (bufs s1 device_centroids)
           = map (\<lambda>dev. if int dev = device_ptrs then Some centroids else None) devs"
    and "map alias_of (bufs s1 device_assignments)
           = map (\<lambda>dev. if int dev = device_ptrs then Some assignments else None) devs"
    and "must_copy_result s1 = (device_ptrs \<notin> int ` set devs)"
proof -
  let ?T = "\<lambda>e :: event. True"
  let ?g = "yinyang_groups_of env yinyang_t clusters_size"
  let ?csize = "unat clusters_size * unat features_size"
  let ?rest = "RETERR (CUMALLOC env device_assignments_prev (unat samples_size) devs)
        (RETERR (CUMALLOC env device_ccounts (unat clusters_size) devs)
        (RETERR (plan_yinyang env samples_size features_size clusters_size ?csize ?g devs)
                (run_collaborators env verbosity ?g)))"
  let ?B = "insert device_assignments_prev (insert device_ccounts (set scratch_buffers))"
  from assms obtain sa where
    a: "plan_samples env (unat samples_size * unat features_size) device_ptrs samples devs
          initial_state = (kmcudaSuccess, sa)" and
    a': "RETERR (plan_centroids env ?csize device_ptrs centroids devs)
          (RETERR (plan_assignments env samples_size device_ptrs assignments devs) ?rest) sa
          = (kmcudaSuccess, s1)"
    unfolding plan_and_refine_def Let_def
    by (subst (asm) RETERR_success) blast
  from a' obtain sb where
    b: "plan_centroids env ?csize device_ptrs centroids devs sa = (kmcudaSuccess, sb)" and
    b': "RETERR (plan_assignments env samples_size device_ptrs assignments devs) ?rest sb
          = (kmcudaSuccess, s1)"
    by (subst (asm) RETERR_success) blast
  from b' obtain sc where
    c: "plan_assignments env samples_size device_ptrs assignments devs sb = (kmcudaSuccess, sc)" and
    d: "?rest sc = (kmcudaSuccess, s1)"
    by (subst (asm) RETERR_success) blast
  have ta: "touches ?T {device_samples}
              (plan_samples env (unat samples_size * unat features_size) device_ptrs samples devs)"
    by (rule touches_plan_samples) simp_all
  have tb: "touches ?T {device_centroids} (plan_centroids env ?csize device_ptrs centroids devs)"
    by (rule touches_plan_centroids) simp_all
  have tc: "touches ?T {device_assignments}
              (plan_assignments env samples_size device_ptrs assignments devs)"
    by (rule touches_plan_assignments) simp_all
  have td: "touches ?T ?B ?rest"
    by (intro touches_RETERR touches_CUMALLOC touches_plan_yinyang touches_run_collaborators)
       auto
  have fd: "keeps_flag ?rest"
    by (intro keeps_flag_RETERR keeps_flag_CUMALLOC keeps_flag_plan_yinyang
          keeps_flag_run_collaborators)
  have sa_c: "bufs sa device_centroids = []"
    using touches_bufs [OF ta, of device_centroids initial_state] a
    by (simp add: initial_state_def)
  have sa_a: "bufs sa device_assignments = []"
    using touches_bufs [OF ta, of device_assignments initial_state] a
    by (simp add: initial_state_def)
  have sa_f: "must_copy_result sa"
    using keeps_flagD [OF keeps_flag_plan_samples,
        of env "unat samples_size * unat features_size" device_ptrs samples devs initial_state] a
    by (simp add: initial_state_def)
  have sb_a: "bufs sb device_assignments = []"
    using touches_bufs [OF tb, of device_assignments sa] b sa_a by simp
  from plan_centroids_success [OF b] sa_c sa_f
  have sb_c: "map alias_of (bufs sb device_centroids)
                = map (\<lambda>dev. if int dev = device_ptrs then Some centroids else None) devs"
    and sb_f: "must_copy_result sb = (device_ptrs \<notin> int ` set devs)"
    by simp_all
  from plan_assignments_success [OF c] sb_a
  have sc_a: "map alias_of (bufs sc device_assignments)
                = map (\<lambda>dev. if int dev = device_ptrs then Some assignments else None) devs"
    by simp
  have sc_c: "bufs sc device_centroids = bufs sb device_centroids"
    using touches_bufs [OF tc, of device_centroids sb] c by simp
  have sc_f: "must_copy_result sc = must_copy_result sb"
    using keeps_flagD [OF keeps_flag_plan_assignments, of env samples_size device_ptrs
        assignments devs sb] c by simp
  have s1_c: "bufs s1 device_centroids = bufs sc device_centroids"
    using touches_bufs [OF td, of device_centroids sc] d by (simp add: scratch_buffers_def)
  have s1_a: "bufs s1 device_assignments = bufs sc device_assignments"
    using touches_bufs [OF td, of device_assignments sc] d by (simp add: scratch_buffers_def)
  have s1_f: "must_copy_result s1 = must_copy_result sc"
    using keeps_flagD [OF fd, of sc] d by simp
  show "map alias_of (bufs s1 device_centroids)
           = map (\<lambda>dev. if int dev = device_ptrs then Some centroids else None) devs"
    using s1_c sc_c sb_c by simp
  show "map alias_of (bufs s1 device_assignments)
           = map (\<lambda>dev. if int dev = device_ptrs then Some assignments else None) devs"
    using s1_a sc_a by simp
  show "must_copy_result s1 = (device_ptrs \<notin> int ` set devs)"
    using s1_f sc_f sb_f by simp
qed

lemma plan_and_refine_no_copy_out:
  "touches (\<lambda>e. \<not> is_copy_out e) UNIV
     (plan_and_refine env yinyang_t samples_size features_size clusters_size verbosity
        device_ptrs samples centroids assignments devs)"
  unfolding plan_and_refine_def Let_def
  by (intro touches_RETERR touches_plan_samples touches_plan_centroids touches_plan_assignments
        touches_CUMALLOC touches_plan_yinyang touches_run_collaborators)
     simp_all

text \<open>
  Claim C8: after the refinement, for centroids and for assignments alike: if the buffer of
  the hinted device is aliased to the caller's output pointer, nothing is copied out;
  otherwise \<open>clusters_size \<times> features_size\<close> floats of centroids and \<open>samples_size\<close>
  indices of assignments are transferred from the buffers of the primary device to the
  caller's location (to the host, or to the hinted device by a peer copy), and a failed
  transfer makes the invocation return \<open>kmcudaMemoryCopyError\<close>.

  In the theorem, \<open>s1\<close> is the state in which the refinement has returned successfully.
  Up to then nothing has been copied out; in both output vectors the entry of a device
  aliases the caller's pointer exactly if the device is the hinted one, and is an owned
  block otherwise. If the hinted device participates the invocation ends in \<open>s1\<close> with
  \<open>kmcudaSuccess\<close>. If not, the transfers are those of \<open>expected_copy_out\<close>, in that
  order: when the first fails the result is \<open>kmcudaMemoryCopyError\<close> and the second is
  not issued, when the second fails the result is \<open>kmcudaMemoryCopyError\<close>, and
  otherwise it is \<open>kmcudaSuccess\<close>.
\<close>

theorem copy_out_after_refinement:
  assumes args: "check_args env tolerance yinyang_t samples_size features_size
                   clusters_size device samples centroids assignments = kmcudaSuccess"
    and devs: "setup_devices (set_device_ok env) device = devs" "devs \<noteq> []"
    and refined: "plan_and_refine env yinyang_t samples_size features_size clusters_size
                    verbosity device_ptrs samples centroids assignments devs initial_state
                  = (kmcudaSuccess, s1)"
  shows "filter is_copy_out (trace s1) = []
    \<and> map alias_of (bufs s1 device_centroids)
        = map (\<lambda>dev. if int dev = device_ptrs then Some centroids else None) devs
    \<and> map alias_of (bufs s1 device_assignments)
        = map (\<lambda>dev. if int dev = device_ptrs then Some assignments else None) devs
    \<and> kmeans_cuda env kmpp tolerance yinyang_t samples_size features_size clusters_size seed
          device verbosity device_ptrs samples centroids assignments
        = (if device_ptrs \<in> int ` set devs then (kmcudaSuccess, s1)
           else if \<not> cuda_ok env (length (trace s1))
           then (kmcudaMemoryCopyError,
                 s1\<lparr>trace := trace s1 @ take 1 (expected_copy_out samples_size features_size
                    clusters_size device_ptrs centroids assignments devs s1)\<rparr>)
           else (if cuda_ok env (Suc (length (trace s1))) then kmcudaSuccess
                 else kmcudaMemoryCopyError,
                 s1\<lparr>trace := trace s1 @ expected_copy_out samples_size features_size
                    clusters_size device_ptrs centroids assignments devs s1\<rparr>))"
proof (intro conjI)
  from touches_trace [OF plan_and_refine_no_copy_out, of env yinyang_t samples_size
      features_size clusters_size verbosity device_ptrs samples centroids assignments devs
      initial_state] refined
  have "list_all (\<lambda>e. \<not> is_copy_out e) (trace s1)"
    by (auto simp: initial_state_def)
  then show "filter is_copy_out (trace s1) = []"
    by (simp add: list_all_iff filter_empty_conv)
next
  show "map alias_of (bufs s1 device_centroids)
        = map (\<lambda>dev. if int dev = device_ptrs then Some centroids else None) devs"
    by (rule plan_and_refine_success(1) [OF refined])
next
  show "map alias_of (bufs s1 device_assignments)
        = map (\<lambda>dev. if int dev = device_ptrs then Some assignments else None) devs"
    by (rule plan_and_refine_success(2) [OF refined])
next
  have flag: "must_copy_result s1 = (device_ptrs \<notin> int ` set devs)"
    by (rule plan_and_refine_success(3) [OF refined])
  have "kmeans_cuda env kmpp tolerance yinyang_t samples_size features_size clusters_size seed
          device verbosity device_ptrs samples centroids assignments
        = copy_result env samples_size (unat clusters_size * unat features_size) device_ptrs
            centroids assignments devs s1"
    using args devs refined by (simp add: kmeans_cuda_def RETERR_def)
  also have "\<dots> = (if device_ptrs \<in> int ` set devs then (kmcudaSuccess, s1)
           else if \<not> cuda_ok env (length (trace s1))
           then (kmcudaMemoryCopyError,
                 s1\<lparr>trace := trace s1 @ take 1 (expected_copy_out samples_size features_size
                    clusters_size device_ptrs centroids assignments devs s1)\<rparr>)
           else (if cuda_ok env (Suc (length (trace s1))) then kmcudaSuccess
                 else kmcudaMemoryCopyError,
                 s1\<lparr>trace := trace s1 @ expected_copy_out samples_size features_size
                    clusters_size device_ptrs centroids assignments devs s1\<rparr>))"
    using flag
    by (simp add: copy_result_def RETERR_def CUCH_def expected_copy_out_def mult.commute)
  finally show "kmeans_cuda env kmpp tolerance yinyang_t samples_size features_size
          clusters_size seed device verbosity device_ptrs samples centroids assignments
        = (if device_ptrs \<in> int ` set devs then (kmcudaSuccess, s1)
           else if \<not> cuda_ok env (length (trace s1))
           then (kmcudaMemoryCopyError,
                 s1\<lparr>trace := trace s1 @ take 1 (expected_copy_out samples_size features_size
                    clusters_size device_ptrs centroids assignments devs s1)\<rparr>)
           else (if cuda_ok env (Suc (length (trace s1))) then kmcudaSuccess
                 else kmcudaMemoryCopyError,
                 s1\<lparr>trace := trace s1 @ expected_copy_out samples_size features_size
                    clusters_size device_ptrs centroids assignments devs s1\<rparr>))" .
qed

text \<open>
  The theorem at three runs on device 0 with four samples, one feature and two clusters:
  output in host memory (8 bytes of centroids and 16 bytes of assignments are copied from
  the two owned blocks), the same with a failing second transfer, and output on device 0
  (nothing is copied).
\<close>

theorem copy_out_after_refinement_witness:
  "check_args all_ok (Finite 0) (Finite 0) 4 1 2 1 (Caller 5) (Caller 6) (Caller 7) = kmcudaSuccess
   \<and> setup_devices (set_device_ok all_ok) 1 = [0]
   \<and> fst (plan_and_refine all_ok (Finite 0) 4 1 2 0 (- 1) (Caller 5) (Caller 6) (Caller 7) [0]
             initial_state) = kmcudaSuccess
   \<and> kmeans_cuda all_ok False (Finite 0) (Finite 0) 4 1 2 0 1 0 (- 1) (Caller 5) (Caller 6) (Caller 7)
       = (kmcudaSuccess,
          (snd (plan_and_refine all_ok (Finite 0) 4 1 2 0 (- 1) (Caller 5) (Caller 6) (Caller 7) [0]
                  initial_state))
          \<lparr>trace := trace (snd (plan_and_refine all_ok (Finite 0) 4 1 2 0 (- 1) (Caller 5) (Caller 6)
                                   (Caller 7) [0] initial_state))
                     @ [cudaMemcpy_D2H (Caller 6) (Cuda 2) 8,
                        cudaMemcpy_D2H (Caller 7) (Cuda 3) 16]\<rparr>)
   \<and> fst (kmeans_cuda assignments_copy_fails False (Finite 0) (Finite 0) 4 1 2 0 1 0 (- 1)
             (Caller 5) (Caller 6) (Caller 7)) = kmcudaMemoryCopyError
   \<and> kmeans_cuda all_ok False (Finite 0) (Finite 0) 4 1 2 0 1 0 0 (Caller 5) (Caller 6) (Caller 7)
       = (kmcudaSuccess,
          snd (plan_and_refine all_ok (Finite 0) 4 1 2 0 0 (Caller 5) (Caller 6) (Caller 7) [0]
                 initial_state))"
proof -
  let ?host = "plan_and_refine all_ok (Finite 0) 4 1 2 0 (- 1) (Caller 5) (Caller 6) (Caller 7) [0]
                 initial_state"
  let ?fail = "plan_and_refine assignments_copy_fails (Finite 0) 4 1 2 0 (- 1) (Caller 5) (Caller 6)
                 (Caller 7) [0] initial_state"
  let ?dev0 = "plan_and_refine all_ok (Finite 0) 4 1 2 0 0 (Caller 5) (Caller 6) (Caller 7) [0]
                 initial_state"
  have args: "check_args all_ok (Finite 0) (Finite 0) 4 1 2 1 (Caller 5) (Caller 6) (Caller 7)
                = kmcudaSuccess"
    by (simp add: all_ok_def check_args_def UINT32_MAX_def Let_def)
  have args': "check_args assignments_copy_fails (Finite 0) (Finite 0) 4 1 2 1 (Caller 5)
                 (Caller 6) (Caller 7) = kmcudaSuccess"
    by (simp add: assignments_copy_fails_def all_ok_def check_args_def UINT32_MAX_def Let_def)
  have devs: "setup_devices (set_device_ok all_ok) 1 = [0]"
    by (simp add: all_ok_def setup_devices_def setup_devices_loop.simps)
  have devs': "setup_devices (set_device_ok assignments_copy_fails) 1 = [0]"
    by (simp add: assignments_copy_fails_def all_ok_def setup_devices_def
          setup_devices_loop.simps)
  have host: "fst ?host = kmcudaSuccess" "length (trace (snd ?host)) = 9"
    "bufs (snd ?host) device_centroids = [DevPtr (Cuda 2) False]"
    "bufs (snd ?host) device_assignments = [DevPtr (Cuda 3) False]"
    by (simp_all add: pipeline_defs)
  have fail: "fst ?fail = kmcudaSuccess" "length (trace (snd ?fail)) = 9"
    by (simp_all add: pipeline_defs assignments_copy_fails_def)
  have dev0: "fst ?dev0 = kmcudaSuccess"
    by (simp add: pipeline_defs)
  have ok: "cuda_ok all_ok = (\<lambda>k. True)" "cuda_ok assignments_copy_fails = (\<lambda>k. k \<noteq> 10)"
    by (simp_all add: all_ok_def assignments_copy_fails_def)
  have 1: "kmeans_cuda all_ok False (Finite 0) (Finite 0) 4 1 2 0 1 0 (- 1) (Caller 5) (Caller 6) (Caller 7)
       = (kmcudaSuccess,
          (snd ?host)\<lparr>trace := trace (snd ?host)
                     @ [cudaMemcpy_D2H (Caller 6) (Cuda 2) 8,
                        cudaMemcpy_D2H (Caller 7) (Cuda 3) 16]\<rparr>)"
    using copy_out_after_refinement [OF args devs _ prod.collapse [symmetric, of ?host,
          unfolded host(1)], of False 0]
    by (simp add: host ok expected_copy_out_def)
  have 2: "fst (kmeans_cuda assignments_copy_fails False (Finite 0) (Finite 0) 4 1 2 0 1 0 (- 1)
             (Caller 5) (Caller 6) (Caller 7)) = kmcudaMemoryCopyError"
    using copy_out_after_refinement [OF args' devs' _ prod.collapse [symmetric, of ?fail,
          unfolded fail(1)], of False 0]
    by (simp add: fail ok)
  have 3: "kmeans_cuda all_ok False (Finite 0) (Finite 0) 4 1 2 0 1 0 0 (Caller 5) (Caller 6) (Caller 7)
       = (kmcudaSuccess, snd ?dev0)"
    using copy_out_after_refinement [OF args devs _ prod.collapse [symmetric, of ?dev0,
          unfolded dev0], of False 0]
    by simp
  from args devs host(1) 1 2 3 show ?thesis
    by (simp only: simp_thms)
qed

section \<open>The reuse of the passed-flags buffer when nothing wraps\<close>

text \<open>
  Where \<open>yinyang_groups \<times> features_size\<close> and \<open>clusters_size + yinyang_groups\<close> fit in 32
  bits, the test of the source is the test on the exact sum. A run of the scratch block
  that succeeds then leaves one entry per device in the passed-flags vector and in the
  group-centroid vector; if the exact sum is at most \<open>samples_size\<close> it allocates no
  group-centroid buffer and every group-centroid entry aliases the passed-flags entry of
  the same device; otherwise it makes one group-centroid allocation per device, of
  \<open>yinyang_groups \<times> features_size\<close> elements, and every entry is an owned block.
\<close>

lemma unat_ucast_16_32: "unat (ucast (f :: 16 word) :: 32 word) = unat f"
proof -
  have "unat f < 2 ^ 16"
    using unsigned_less [of f] by simp
  then have "unat f < 2 ^ 32"
    by simp
  then show ?thesis
    by (simp add: unsigned_ucast_eq take_bit_nat_eq_self)
qed

lemma yyc_size_exact:
  fixes g clusters_size :: "32 word" and features_size :: "16 word"
  assumes "unat g * unat features_size < 2 ^ 32" "unat clusters_size + unat g < 2 ^ 32"
  shows "unat (g * ucast features_size) = unat g * unat features_size"
    and "unat (clusters_size + g) = unat clusters_size + unat g"
proof -
  have "unat g * unat (ucast features_size :: 32 word) < 2 ^ LENGTH(32)"
    using assms(1) by (simp add: unat_ucast_16_32)
  then have "unat (g * ucast features_size) = unat g * unat (ucast features_size :: 32 word)"
    by (simp only: unat_mult_lem)
  then show "unat (g * ucast features_size) = unat g * unat features_size"
    by (simp add: unat_ucast_16_32)
  have "unat clusters_size + unat g < 2 ^ LENGTH(32)"
    using assms(2) by simp
  then show "unat (clusters_size + g) = unat clusters_size + unat g"
    by (simp only: unat_add_lem)
qed

lemma CUMALLOC_ONE_trace:
  "CUMALLOC_ONE env dest n dev s = (kmcudaSuccess, t) \<Longrightarrow>
   trace t = trace s @ [cudaMalloc dest dev n] \<and> (\<forall>b. b \<noteq> dest \<longrightarrow> bufs t b = bufs s b)"
  by (auto simp: CUMALLOC_ONE_def CUCH_def emplace_back_def split: if_splits)

lemma CUMALLOC_success:
  assumes "CUMALLOC env dest n devs s = (kmcudaSuccess, s')"
  shows "trace s' = trace s @ map (\<lambda>dev. cudaMalloc dest dev n) devs
       \<and> bufs s' dest = bufs s dest
           @ map (\<lambda>k. DevPtr (Cuda k) False) [length (trace s)..<length (trace s) + length devs]
       \<and> (\<forall>b. b \<noteq> dest \<longrightarrow> bufs s' b = bufs s b)"
  using assms
proof (induction devs arbitrary: s)
  case Nil
  then show ?case by (simp add: CUMALLOC_def)
next
  case (Cons dev devs)
  from Cons.prems obtain t where
    one: "CUMALLOC_ONE env dest n dev s = (kmcudaSuccess, t)" and
    rest: "CUMALLOC env dest n devs t = (kmcudaSuccess, s')"
    unfolding CUMALLOC_def FOR_ALL_DEVS_Cons_success by blast
  from CUMALLOC_ONE_success(1) [OF one] CUMALLOC_ONE_trace [OF one]
  have t: "bufs t dest = bufs s dest @ [DevPtr (Cuda (length (trace s))) False]"
    "trace t = trace s @ [cudaMalloc dest dev n]" "\<forall>b. b \<noteq> dest \<longrightarrow> bufs t b = bufs s b"
    by simp_all
  have upt: "[length (trace s)..<length (trace s) + length (dev # devs)]
             = length (trace s) # [length (trace t)..<length (trace t) + length devs]"
    using t(2) upt_conv_Cons [of "length (trace s)" "length (trace s) + Suc (length devs)"]
    by (simp del: upt_Suc)
  from Cons.IH [OF rest] t show ?case
    unfolding upt by simp
qed

lemma filter_mallocs_other:
  "dest \<noteq> b \<Longrightarrow> filter (is_malloc_of b) (map (\<lambda>dev. cudaMalloc dest dev n) devs) = []"
  by (induction devs) simp_all

lemma filter_mallocs_same:
  "filter (is_malloc_of b) (map (\<lambda>dev. cudaMalloc b dev n) devs)
     = map (\<lambda>dev. cudaMalloc b dev n) devs"
  by (induction devs) simp_all

lemma plan_yinyang_success:
  assumes g: "1 \<le> g"
    and nowrap: "unat g * unat features_size < 2 ^ 32" "unat clusters_size + unat g < 2 ^ 32"
    and run: "plan_yinyang env samples_size features_size clusters_size centroids_size g devs s
                = (kmcudaSuccess, s')"
    and empty: "bufs s device_passed_yy = []" "bufs s device_centroids_yy = []"
  shows "length (bufs s' device_passed_yy) = length devs
    \<and> length (bufs s' device_centroids_yy) = length devs
    \<and> (if unat g * unat features_size + unat clusters_size + unat g \<le> unat samples_size
        then filter (is_malloc_of device_centroids_yy) (trace s')
               = filter (is_malloc_of device_centroids_yy) (trace s)
             \<and> bufs s' device_centroids_yy
               = map (\<lambda>p. DevPtr (get p) True) (bufs s' device_passed_yy)
        else filter (is_malloc_of device_centroids_yy) (trace s')
               = filter (is_malloc_of device_centroids_yy) (trace s)
                 @ map (\<lambda>dev. cudaMalloc device_centroids_yy dev (unat g * unat features_size))
                     devs
             \<and> list_all (\<lambda>p. alias_of p = None) (bufs s' device_centroids_yy))"
proof -
  let ?F = "filter (is_malloc_of device_centroids_yy)"
  let ?yyc = "unat (g * ucast features_size)"
  let ?last = "if ?yyc + unat (clusters_size + g) \<le> unat samples_size
       then (\<lambda>s. (kmcudaSuccess,
                   s\<lparr>bufs := (bufs s)(device_centroids_yy :=
                          bufs s device_centroids_yy
                          @ map (\<lambda>p. DevPtr (get p) True) (bufs s device_passed_yy))\<rparr>))
       else CUMALLOC env device_centroids_yy ?yyc devs"
  from run g obtain t1 t2 t3 t4 where
    1: "CUMALLOC env device_assignments_yy (unat clusters_size) devs s = (kmcudaSuccess, t1)" and
    2: "CUMALLOC env device_bounds_yy (unat samples_size * unat (g + 1)) devs t1
          = (kmcudaSuccess, t2)" and
    3: "CUMALLOC env device_drifts_yy (centroids_size + unat clusters_size) devs t2
          = (kmcudaSuccess, t3)" and
    4: "CUMALLOC env device_passed_yy (unat samples_size) devs t3 = (kmcudaSuccess, t4)" and
    5: "?last t4 = (kmcudaSuccess, s')"
    unfolding plan_yinyang_def Let_def
    by (simp only: if_True RETERR_success) blast
  note c1 = CUMALLOC_success [OF 1] and c2 = CUMALLOC_success [OF 2]
    and c3 = CUMALLOC_success [OF 3] and c4 = CUMALLOC_success [OF 4]
  have tr4: "?F (trace t4) = ?F (trace s)"
    using c1 c2 c3 c4 by (simp add: filter_mallocs_other)
  have cy4: "bufs t4 device_centroids_yy = []"
    using c1 c2 c3 c4 empty(2) by simp
  have "bufs t3 device_passed_yy = []"
    using c1 c2 c3 empty(1) by simp
  with c4 have pa4: "length (bufs t4 device_passed_yy) = length devs"
    by simp
  have sizes: "?yyc = unat g * unat features_size"
    "unat (clusters_size + g) = unat clusters_size + unat g"
    by (rule yyc_size_exact [OF nowrap])+
  show ?thesis
  proof (cases "unat g * unat features_size + unat clusters_size + unat g \<le> unat samples_size")
    case True
    with 5 sizes have "s' = t4\<lparr>bufs := (bufs t4)(device_centroids_yy :=
                          bufs t4 device_centroids_yy
                          @ map (\<lambda>p. DevPtr (get p) True) (bufs t4 device_passed_yy))\<rparr>"
      by (simp add: add.assoc)
    with True tr4 cy4 pa4 show ?thesis
      by simp
  next
    case False
    with 5 sizes
    have "CUMALLOC env device_centroids_yy (unat g * unat features_size) devs t4
            = (kmcudaSuccess, s')"
      by (simp add: add.assoc)
    note c5 = CUMALLOC_success [OF this]
    from c5 tr4 have tr: "?F (trace s') = ?F (trace s)
        @ map (\<lambda>dev. cudaMalloc device_centroids_yy dev (unat g * unat features_size)) devs"
      by (simp add: filter_mallocs_same)
    from c5 cy4 have owned: "list_all (\<lambda>p. alias_of p = None) (bufs s' device_centroids_yy)"
      and len: "length (bufs s' device_centroids_yy) = length devs"
      by (simp_all add: list_all_iff alias_of_def)
    from c5 pa4 have "length (bufs s' device_passed_yy) = length devs"
      by simp
    with False tr owned len show ?thesis
      by simp
  qed
qed

section \<open>The sample matrix in host memory\<close>

text \<open>
  With a negative hint the samples are in host memory. A run of the samples block that
  succeeds then makes one allocation of the whole matrix per participating device, leaves
  the owned blocks in \<open>device_samples\<close> in the order of the devices, and uploads the
  caller's matrix into each of them.
\<close>

lemma CUMEMCPY_H2D_ASYNC_loop:
  assumes "FOR_ALL_DEVS
             (\<lambda>devi s. CUCH env (cudaMemcpyAsync_H2D devi (get (bufs s dst ! devi)) src n)
                          kmcudaMemoryCopyError s)
             idxs s = (kmcudaSuccess, s')"
  shows "trace s' = trace s
           @ map (\<lambda>devi. cudaMemcpyAsync_H2D devi (get (bufs s dst ! devi)) src n) idxs
       \<and> bufs s' = bufs s"
  using assms
proof (induction idxs arbitrary: s)
  case Nil
  then show ?case by simp
next
  case (Cons devi idxs)
  let ?body = "\<lambda>devi s. CUCH env (cudaMemcpyAsync_H2D devi (get (bufs s dst ! devi)) src n)
                          kmcudaMemoryCopyError s"
  from Cons.prems obtain t where
    one: "?body devi s = (kmcudaSuccess, t)" and
    rest: "FOR_ALL_DEVS ?body idxs t = (kmcudaSuccess, s')"
    unfolding FOR_ALL_DEVS_Cons_success by blast
  from one have t: "trace t = trace s @ [cudaMemcpyAsync_H2D devi (get (bufs s dst ! devi)) src n]"
    "bufs t = bufs s"
    by (auto simp: CUCH_def)
  from Cons.IH [OF rest] t show ?case
    by simp
qed

lemma plan_samples_host_success:
  assumes host: "device_ptrs < 0"
    and run: "plan_samples env n device_ptrs samples devs s = (kmcudaSuccess, s')"
    and empty: "bufs s device_samples = []"
  shows "bufs s' device_samples
           = map (\<lambda>k. DevPtr (Cuda k) False) [length (trace s)..<length (trace s) + length devs]
       \<and> trace s' = trace s
           @ map (\<lambda>dev. cudaMalloc device_samples dev n) devs
           @ map (\<lambda>devi. cudaMemcpyAsync_H2D devi (Cuda (length (trace s) + devi)) samples n)
               [0..<length devs]"
proof -
  from run host obtain t where
    1: "CUMALLOC env device_samples n devs s = (kmcudaSuccess, t)" and
    2: "CUMEMCPY_H2D_ASYNC env device_samples samples n devs t = (kmcudaSuccess, s')"
    unfolding plan_samples_def by (simp only: if_True RETERR_success) blast
  from CUMALLOC_success [OF 1] empty
  have t: "trace t = trace s @ map (\<lambda>dev. cudaMalloc device_samples dev n) devs"
    "bufs t device_samples
       = map (\<lambda>k. DevPtr (Cuda k) False) [length (trace s)..<length (trace s) + length devs]"
    by simp_all
  from CUMEMCPY_H2D_ASYNC_loop [OF 2 [unfolded CUMEMCPY_H2D_ASYNC_def FOR_ALL_DEVSI_def]]
  have s': "trace s' = trace t
              @ map (\<lambda>devi. cudaMemcpyAsync_H2D devi (get (bufs t device_samples ! devi))
                               samples n) [0..<length devs]"
    "bufs s' = bufs t"
    by simp_all
  have "map (\<lambda>devi. cudaMemcpyAsync_H2D devi (get (bufs t device_samples ! devi)) samples n)
          [0..<length devs]
        = map (\<lambda>devi. cudaMemcpyAsync_H2D devi (Cuda (length (trace s) + devi)) samples n)
          [0..<length devs]"
    by (rule map_cong) (simp_all add: t(2))
  with s' t show ?thesis
    by simp
qed

end
